theory Spec2Isabelle
  imports Complex_Main
begin

section \<open>JavaScript values as the frontend sees them\<close>

text \<open>
  The frontend (\<^verbatim>\<open>src/frontend/services/apiService.ts\<close> and the React components) works on
  untyped values parsed from JSON (\<^verbatim>\<open>Promise<any>\<close>). A value is modelled as it is at run
  time. Numbers are rationals (every finite double is one; JSON has no NaN or Infinity). An
  object is the list of its members, each key once.
\<close>

datatype jsval =
    JUndefined
  | JNull
  | JBool bool
  | JNum rat
  | JStr string
  | JArr "jsval list"
  | JObj "(string \<times> jsval) list"

text \<open>What a rejected promise or a \<^verbatim>\<open>throw\<close> carries. \<open>JsError v\<close> is \<^verbatim>\<open>new Error(v)\<close>: its
  message is \<^verbatim>\<open>String(v)\<close>, which is \<open>s\<close> itself for \<open>v = JStr s\<close>.\<close>

datatype js_error = JsError jsval | JsTypeError | JsSyntaxError

text \<open>JavaScript truthiness: \<^verbatim>\<open>undefined\<close>, \<^verbatim>\<open>null\<close>, \<^verbatim>\<open>false\<close>, \<^verbatim>\<open>0\<close> and \<^verbatim>\<open>''\<close> are falsy;
  every array and object is truthy, the empty ones too.\<close>

fun truthy :: "jsval \<Rightarrow> bool" where
  "truthy JUndefined = False"
| "truthy JNull = False"
| "truthy (JBool b) = b"
| "truthy (JNum r) = (r \<noteq> 0)"
| "truthy (JStr s) = (s \<noteq> [])"
| "truthy (JArr xs) = True"
| "truthy (JObj kvs) = True"

text \<open>\<^verbatim>\<open>a || b\<close>\<close>

definition js_or :: "jsval \<Rightarrow> jsval \<Rightarrow> jsval" where
  "js_or a b = (if truthy a then a else b)"

text \<open>\<^verbatim>\<open>v.k\<close> for the keys the frontend reads (none of them is a built-in property of a
  string, number, boolean or array): a TypeError on \<^verbatim>\<open>undefined\<close> and \<^verbatim>\<open>null\<close>, the member of an
  object, \<^verbatim>\<open>undefined\<close> otherwise.\<close>

fun getProp :: "jsval \<Rightarrow> string \<Rightarrow> js_error + jsval" where
  "getProp JUndefined k = Inl JsTypeError"
| "getProp JNull k = Inl JsTypeError"
| "getProp (JObj kvs) k = Inr (case map_of kvs k of None \<Rightarrow> JUndefined | Some v \<Rightarrow> v)"
| "getProp v k = Inr JUndefined"

text \<open>\<^verbatim>\<open>v?.k\<close>: \<^verbatim>\<open>undefined\<close> on \<^verbatim>\<open>undefined\<close> and \<^verbatim>\<open>null\<close>, never an error.\<close>

fun getOpt :: "jsval \<Rightarrow> string \<Rightarrow> jsval" where
  "getOpt (JObj kvs) k = (case map_of kvs k of None \<Rightarrow> JUndefined | Some v \<Rightarrow> v)"
| "getOpt v k = JUndefined"

text \<open>Decimal digits of a number, for the template literal \<^verbatim>\<open>`HTTP ${res.status}`\<close>.\<close>

fun show_nat :: "nat \<Rightarrow> string" where
  "show_nat n = (if n < 10 then [''0123456789'' ! n]
                 else show_nat (n div 10) @ [''0123456789'' ! (n mod 10)])"

declare show_nat.simps [simp del]

section \<open>The API client: \<^verbatim>\<open>ApiService.request\<close>\<close>

text \<open>\<^verbatim>\<open>RequestInit\<close> as the client fills it. \<open>body\<close> holds the value whose
  \<^verbatim>\<open>JSON.stringify\<close> text is sent.\<close>

record RequestInit =
  http_method :: "string option"
  headers :: "(string \<times> string) list"
  body :: "jsval option"

text \<open>What the client reads of a \<^verbatim>\<open>Response\<close>: \<^verbatim>\<open>res.ok\<close>, \<^verbatim>\<open>res.status\<close> and the outcome of
  \<^verbatim>\<open>res.json()\<close>, \<open>None\<close> when the body is not JSON text (the promise rejects with a
  SyntaxError).\<close>

record Response =
  ok :: bool
  status :: nat
  json :: "jsval option"

text \<open>\<^verbatim>\<open>fetch(url, config)\<close>: resolves with a response or rejects.\<close>

type_synonym fetch = "string \<Rightarrow> RequestInit \<Rightarrow> js_error + Response"

definition no_options :: RequestInit where
  "no_options = \<lparr>http_method = None, headers = [], body = None\<rparr>"

text \<open>The object spread \<^verbatim>\<open>{'Content-Type': 'application/json', ...options.headers}\<close>: a key of
  \<open>options.headers\<close> replaces the default.\<close>

definition merge_headers :: "(string \<times> string) list \<Rightarrow> (string \<times> string) list" where
  "merge_headers hs =
     (if ''Content-Type'' \<in> fst ` set hs then hs
      else (''Content-Type'', ''application/json'') # hs)"

definition http_status_message :: "nat \<Rightarrow> string" where
  "http_status_message n = ''HTTP '' @ show_nat n"

definition request :: "string \<Rightarrow> fetch \<Rightarrow> string \<Rightarrow> RequestInit \<Rightarrow> js_error + jsval" where
  "request baseUrl fetch endpoint options =
     (let url = baseUrl @ endpoint;
          config = options\<lparr>headers := merge_headers (headers options)\<rparr>
      in case fetch url config of
           Inl e \<Rightarrow> Inl e
         | Inr res \<Rightarrow>
             if \<not> ok res then
               (let error = (case json res of
                               None \<Rightarrow> JObj [(''detail'', JStr (http_status_message (status res)))]
                             | Some v \<Rightarrow> v)
                in case getProp error ''detail'' of
                     Inl e \<Rightarrow> Inl e
                   | Inr d \<Rightarrow> Inl (JsError (js_or d (JStr (http_status_message (status res))))))
             else (case json res of None \<Rightarrow> Inl JsSyntaxError | Some v \<Rightarrow> Inr v))"

section \<open>The endpoints of \<^verbatim>\<open>ApiService\<close>\<close>

definition getDevice :: "string \<Rightarrow> fetch \<Rightarrow> string \<Rightarrow> js_error + jsval" where
  "getDevice baseUrl fetch deviceId = request baseUrl fetch (''/devices/'' @ deviceId) no_options"

definition getPassportByDevice :: "string \<Rightarrow> fetch \<Rightarrow> string \<Rightarrow> js_error + jsval" where
  "getPassportByDevice baseUrl fetch deviceId =
     request baseUrl fetch (''/passports/device/'' @ deviceId) no_options"

definition gradeDevice :: "string \<Rightarrow> fetch \<Rightarrow> jsval \<Rightarrow> js_error + jsval" where
  "gradeDevice baseUrl fetch req =
     request baseUrl fetch ''/grading''
       \<lparr>http_method = Some ''POST'', headers = [], body = Some req\<rparr>"

text \<open>\<^verbatim>\<open>Boolean.prototype.toString\<close>\<close>

definition bool_toString :: "bool \<Rightarrow> string" where
  "bool_toString b = (if b then ''true'' else ''false'')"

text \<open>\<^verbatim>\<open>URLSearchParams.toString\<close> on keys and values that need no percent-encoding (here
  lower-case letters and the underscore): \<^verbatim>\<open>k=v\<close> pairs joined by \<^verbatim>\<open>&\<close>.\<close>

fun searchParams_toString :: "(string \<times> string) list \<Rightarrow> string" where
  "searchParams_toString [] = []"
| "searchParams_toString [(k, v)] = k @ ''='' @ v"
| "searchParams_toString ((k, v) # kvs) = k @ ''='' @ v @ ''&'' @ searchParams_toString kvs"

text \<open>The query parameters \<^verbatim>\<open>analyzeDevice\<close> builds from its two flags.\<close>

definition analyzeDevice_params :: "bool \<Rightarrow> bool \<Rightarrow> (string \<times> string) list" where
  "analyzeDevice_params includeGrading includePricing =
     [(''include_grading'', bool_toString includeGrading),
      (''include_pricing'', bool_toString includePricing)]"

definition analyzeDevice_endpoint :: "string \<Rightarrow> bool \<Rightarrow> bool \<Rightarrow> string" where
  "analyzeDevice_endpoint deviceId includeGrading includePricing =
     ''/analysis/'' @ deviceId @ ''?'' @
       searchParams_toString (analyzeDevice_params includeGrading includePricing)"

text \<open>\<^verbatim>\<open>imageUrls ? { image_urls: imageUrls } : null\<close>, then
  \<^verbatim>\<open>body ? JSON.stringify(body) : undefined\<close>: an array is truthy even when empty, so the body is
  sent whenever the argument is given.\<close>

definition analyzeDevice_options :: "string list option \<Rightarrow> RequestInit" where
  "analyzeDevice_options imageUrls =
     \<lparr>http_method = Some ''POST'', headers = [],
      body = (case imageUrls of
                None \<Rightarrow> None
              | Some urls \<Rightarrow> Some (JObj [(''image_urls'', JArr (map JStr urls))]))\<rparr>"

definition analyzeDevice ::
  "string \<Rightarrow> fetch \<Rightarrow> string \<Rightarrow> bool \<Rightarrow> bool \<Rightarrow> string list option \<Rightarrow> js_error + jsval" where
  "analyzeDevice baseUrl fetch deviceId includeGrading includePricing imageUrls =
     request baseUrl fetch (analyzeDevice_endpoint deviceId includeGrading includePricing)
       (analyzeDevice_options imageUrls)"

section \<open>The grading scanner: \<^verbatim>\<open>captureAndAnalyze\<close>\<close>

text \<open>\<^verbatim>\<open>enum DeviceGrade\<close> of the frontend's types, with the string each member stands for.\<close>

datatype DeviceGrade = MINT | EXCELLENT | GOOD | FAIR | RECYCLE

fun DeviceGrade_value :: "DeviceGrade \<Rightarrow> string" where
  "DeviceGrade_value MINT = ''Mint''"
| "DeviceGrade_value EXCELLENT = ''Excellent''"
| "DeviceGrade_value GOOD = ''Good''"
| "DeviceGrade_value FAIR = ''Fair''"
| "DeviceGrade_value RECYCLE = ''Recycle''"

definition all_DeviceGrades :: "DeviceGrade list" where
  "all_DeviceGrades = [MINT, EXCELLENT, GOOD, FAIR, RECYCLE]"

text \<open>A run-time value is on the five-point scale when it is the string of a member.\<close>

definition on_grade_scale :: "jsval \<Rightarrow> bool" where
  "on_grade_scale v = (v \<in> set (map (\<lambda>g. JStr (DeviceGrade_value g)) all_DeviceGrades))"

text \<open>\<^verbatim>\<open>interface GradingResult\<close> of the scanner. The fields are declared \<^verbatim>\<open>string\<close> and
  \<^verbatim>\<open>number\<close>, and filled from an \<^verbatim>\<open>any\<close>: at run time they hold whatever the backend sent.\<close>

record GradingResult =
  grade :: jsval
  confidence :: jsval
  defects :: jsval
  suggestedAction :: jsval
  estimatedValue :: jsval

text \<open>The component's state: the \<^verbatim>\<open>useState\<close> cells \<open>stream\<close> (camera on), \<open>isScanning\<close>,
  \<open>result\<close> and \<open>error\<close>.\<close>

record scanner_state =
  stream :: bool
  isScanning :: bool
  result :: "GradingResult option"
  scan_error :: "string option"

text \<open>The object literal passed to \<^verbatim>\<open>setResult\<close>, inside \<^verbatim>\<open>if (gradingResult?.grading)\<close>. Each
  member access is the strict one of the source; an error would reach the \<^verbatim>\<open>catch\<close>.\<close>

definition build_result :: "jsval \<Rightarrow> js_error + GradingResult" where
  "build_result gradingResult =
     (case getProp gradingResult ''grading'' of
        Inl e \<Rightarrow> Inl e
      | Inr grading \<Rightarrow>
     (case getProp grading ''grade'' of
        Inl e \<Rightarrow> Inl e
      | Inr g \<Rightarrow>
     (case getProp grading ''confidence'' of
        Inl e \<Rightarrow> Inl e
      | Inr c \<Rightarrow>
     (case getProp grading ''defects'' of
        Inl e \<Rightarrow> Inl e
      | Inr d \<Rightarrow>
     (case getProp grading ''suggested_action'' of
        Inl e \<Rightarrow> Inl e
      | Inr a \<Rightarrow>
     (case getProp gradingResult ''price_estimate'' of
        Inl e \<Rightarrow> Inl e
      | Inr pe \<Rightarrow>
          Inr \<lparr>grade = js_or g (JStr ''Good''),
               confidence = js_or c (JNum (85 / 100)),
               defects = js_or d (JArr []),
               suggestedAction = js_or a (JStr ''Resell''),
               estimatedValue = js_or (getOpt pe ''estimated_price'') (JNum 980)\<rparr>))))))"

definition grading_failed_message :: string where
  "grading_failed_message = ''Backend grading failed. Ensure backend is running on port 8000.''"

text \<open>\<^verbatim>\<open>captureAndAnalyze\<close>. \<open>refs\<close>: both the video and the canvas element are mounted;
  \<open>ctx\<close>: the canvas gave a 2d context; \<open>dataUrl\<close>: the captured frame. The request is the
  fixed device id with the one image.\<close>

definition scan_request :: "string \<Rightarrow> jsval" where
  "scan_request dataUrl =
     JObj [(''device_id'', JStr ''LP-99X-2026-ALPHA''), (''image_urls'', JArr [JStr dataUrl])]"

definition captureAndAnalyze ::
  "string \<Rightarrow> fetch \<Rightarrow> bool \<Rightarrow> bool \<Rightarrow> string \<Rightarrow> scanner_state \<Rightarrow> scanner_state" where
  "captureAndAnalyze baseUrl fetch refs ctx dataUrl st =
     (if \<not> refs then st
      else
        let st1 = st\<lparr>isScanning := True, result := None\<rparr> in
        if \<not> ctx then st1
        else
          (case gradeDevice baseUrl fetch (scan_request dataUrl) of
             Inl e \<Rightarrow> st1\<lparr>scan_error := Some grading_failed_message, isScanning := False\<rparr>
           | Inr gradingResult \<Rightarrow>
               if truthy (getOpt gradingResult ''grading'') then
                 (case build_result gradingResult of
                    Inl e \<Rightarrow> st1\<lparr>scan_error := Some grading_failed_message, isScanning := False\<rparr>
                  | Inr r \<Rightarrow> st1\<lparr>result := Some r, stream := False, isScanning := False\<rparr>)
               else st1\<lparr>stream := False, isScanning := False\<rparr>))"

section \<open>The passport view: \<^verbatim>\<open>fetchDeviceData\<close>\<close>

record RepairRecord =
  date :: string
  component :: string
  technician :: string
  impactOnValue :: nat

text \<open>\<^verbatim>\<open>interface PassportData extends Device\<close>. The members filled from the backend's answers
  hold run-time values; the ones the component writes itself have its types.\<close>

record PassportData =
  device_id :: jsval
  model :: jsval
  serialNumber :: jsval
  passportId :: string
  currentGrade :: jsval
  currentValue :: jsval
  predictedValueDropDate :: string
  carbonOffset :: rat
  device_status :: jsval
  repairHistory :: "RepairRecord list"

record passport_state =
  device :: "PassportData option"
  loading :: bool
  passport_error :: "string option"

text \<open>\<^verbatim>\<open>s.substring(Math.max(0, s.length - 7))\<close>: the last seven characters, the whole string
  when it is shorter (the subtraction on \<open>nat\<close> stops at 0, as \<^verbatim>\<open>Math.max(0, _)\<close> does).\<close>

definition last7 :: "string \<Rightarrow> string" where
  "last7 s = drop (length s - 7) s"

definition fixed_repairHistory :: "RepairRecord list" where
  "fixed_repairHistory =
     [\<lparr>date = ''2024-11-12'', component = ''Battery Replacement'',
       technician = ''LoopFix Certified'', impactOnValue = 40\<rparr>,
      \<lparr>date = ''2025-03-05'', component = ''Screen Calibration'',
       technician = ''Automated Bot B3'', impactOnValue = 15\<rparr>,
      \<lparr>date = ''2026-01-20'', component = ''Software Optimization'',
       technician = ''System-Level'', impactOnValue = 5\<rparr>]"

text \<open>The object literal \<^verbatim>\<open>deviceInfo\<close>.\<close>

definition deviceInfo :: "string \<Rightarrow> jsval \<Rightarrow> jsval \<Rightarrow> js_error + PassportData" where
  "deviceInfo deviceId deviceData analysisData =
     (case getProp deviceData ''id'' of
        Inl e \<Rightarrow> Inl e
      | Inr i \<Rightarrow>
     (case getProp deviceData ''model'' of
        Inl e \<Rightarrow> Inl e
      | Inr m \<Rightarrow>
     (case getProp deviceData ''serialNumber'' of
        Inl e \<Rightarrow> Inl e
      | Inr sn \<Rightarrow>
     (case getProp deviceData ''status'' of
        Inl e \<Rightarrow> Inl e
      | Inr stat \<Rightarrow>
          Inr \<lparr>device_id = js_or i (JStr deviceId),
               model = js_or m (JStr ''Unknown Model''),
               serialNumber = js_or sn (JStr ''N/A''),
               passportId = ''SOL_DPP_'' @ last7 deviceId,
               currentGrade =
                 js_or (getOpt (getOpt analysisData ''grading'') ''grade'') (JStr ''Not Graded''),
               currentValue =
                 js_or (getOpt (getOpt analysisData ''price_estimate'') ''estimated_price'')
                   (JNum 0),
               predictedValueDropDate = ''2026-06-20'',
               carbonOffset = 452 / 10,
               device_status = js_or stat (JStr ''unknown''),
               repairHistory = fixed_repairHistory\<rparr>))))"

definition device_not_found_message :: string where
  "device_not_found_message = ''Device not found. Register a device first.''"

definition connection_failed_message :: string where
  "connection_failed_message =
     ''Backend connection failed. Register a device and add telemetry data first.''"

text \<open>\<^verbatim>\<open>fetchDeviceData\<close>: the device, then the analysis (a failure of the analysis is caught and
  leaves \<^verbatim>\<open>analysisData\<close> at \<^verbatim>\<open>null\<close>), then the passport data. The passport endpoint is not
  called.\<close>

definition fetchDeviceData :: "string \<Rightarrow> fetch \<Rightarrow> string \<Rightarrow> passport_state \<Rightarrow> passport_state" where
  "fetchDeviceData baseUrl fetch deviceId st =
     (let st1 = st\<lparr>loading := True, passport_error := None\<rparr> in
      case getDevice baseUrl fetch deviceId of
        Inl e \<Rightarrow>
          st1\<lparr>passport_error := Some connection_failed_message, device := None, loading := False\<rparr>
      | Inr deviceData \<Rightarrow>
          if \<not> truthy deviceData then
            st1\<lparr>passport_error := Some device_not_found_message, device := None, loading := False\<rparr>
          else
            let analysisData =
                  (case analyzeDevice baseUrl fetch deviceId True True None of
                     Inl e \<Rightarrow> JNull
                   | Inr a \<Rightarrow> a)
            in case deviceInfo deviceId deviceData analysisData of
                 Inl e \<Rightarrow>
                   st1\<lparr>passport_error := Some connection_failed_message, device := None,
                       loading := False\<rparr>
               | Inr info \<Rightarrow> st1\<lparr>device := Some info, loading := False\<rparr>)"

text \<open>The device id the component holds (its \<^verbatim>\<open>useState\<close> initial value; the setter is never
  called).\<close>

definition component_deviceId :: string where
  "component_deviceId = ''LP-99X-2026-ALPHA''"

section \<open>The dashboard: \<^verbatim>\<open>fetchTelemetryData\<close>\<close>

definition getTelemetryHistory :: "string \<Rightarrow> fetch \<Rightarrow> string \<Rightarrow> nat \<Rightarrow> js_error + jsval" where
  "getTelemetryHistory baseUrl fetch deviceId days =
     request baseUrl fetch (''/telemetry/'' @ deviceId @ ''?days='' @ show_nat days) no_options"

text \<open>\<^verbatim>\<open>interface ChartData\<close>. Two members are kept as the value they are computed from, so that
  neither the locale's date formatting nor double arithmetic is approximated: \<open>timestamp\<close>
  holds \<^verbatim>\<open>item.timestamp\<close> (the label is the short month name of that date) and
  \<open>thermalEfficiency\<close> holds \<open>t\<close> of \<^verbatim>\<open>100 - t / 1.5\<close>.\<close>

record ChartData =
  timestamp :: jsval
  batteryHealth :: jsval
  thermalEfficiency :: jsval
  marketValue :: int

text \<open>The thermal efficiency of the metrics: the literal of the reset state, or
  \<^verbatim>\<open>100 - t / 1.5\<close> for the snapshot's \<open>t\<close>.\<close>

datatype thermal_value = ThermalLiteral rat | ThermalOf jsval

record Metrics =
  metrics_batteryHealth :: jsval
  metrics_thermalEfficiency :: thermal_value
  metrics_marketValue :: int
  circularYield :: rat

record dashboard_state =
  telemetryData :: "ChartData list"
  metrics :: Metrics
  dashboard_loading :: bool
  dashboard_error :: "string option"

definition zero_metrics :: Metrics where
  "zero_metrics =
     \<lparr>metrics_batteryHealth = JNum 0, metrics_thermalEfficiency = ThermalLiteral 0,
      metrics_marketValue = 0, circularYield = 0\<rparr>"

definition no_telemetry_message :: string where
  "no_telemetry_message =
     ''No telemetry data available for this device. Scan or ingest data first.''"

definition no_connection_message :: string where
  "no_connection_message = ''Backend connection failed. No telemetry data to display.''"

text \<open>\<^verbatim>\<open>v.length\<close> of a truthy value: the length of an array or a string, the member of an
  object, \<^verbatim>\<open>undefined\<close> otherwise.\<close>

fun js_length :: "jsval \<Rightarrow> jsval" where
  "js_length (JArr xs) = JNum (of_nat (length xs))"
| "js_length (JStr s) = JNum (of_nat (length s))"
| "js_length v = getOpt v ''length''"

text \<open>The callback of \<^verbatim>\<open>history.map\<close> on one snapshot and its index.\<close>

definition chart_item :: "nat \<Rightarrow> jsval \<Rightarrow> js_error + ChartData" where
  "chart_item index item =
     (case getProp item ''timestamp'' of
        Inl e \<Rightarrow> Inl e
      | Inr ts \<Rightarrow>
     (case getProp item ''battery_health_percentage'' of
        Inl e \<Rightarrow> Inl e
      | Inr bh \<Rightarrow>
     (case getProp item ''battery_temperature'' of
        Inl e \<Rightarrow> Inl e
      | Inr bt \<Rightarrow>
          Inr \<lparr>timestamp = ts, batteryHealth = js_or bh (JNum 0),
               thermalEfficiency = js_or bt (JNum 0),
               marketValue = 1200 - int index * 50\<rparr>)))"

text \<open>\<^verbatim>\<open>history.map\<close>, from index \<open>i\<close> on: the first error ends it.\<close>

fun chart_map :: "nat \<Rightarrow> jsval list \<Rightarrow> js_error + ChartData list" where
  "chart_map i [] = Inr []"
| "chart_map i (x # xs) =
     (case chart_item i x of
        Inl e \<Rightarrow> Inl e
      | Inr c \<Rightarrow> (case chart_map (Suc i) xs of Inl e \<Rightarrow> Inl e | Inr cs \<Rightarrow> Inr (c # cs)))"

text \<open>\<^verbatim>\<open>fetchTelemetryData\<close>. The history is charted in the order it came in, and the metrics are
  read from \<^verbatim>\<open>history[0]\<close> (``most recent telemetry''). A value that is not an array has no
  \<^verbatim>\<open>map\<close>: the TypeError reaches the \<^verbatim>\<open>catch\<close>.\<close>

definition fetchTelemetryData ::
  "string \<Rightarrow> fetch \<Rightarrow> string \<Rightarrow> dashboard_state \<Rightarrow> dashboard_state" where
  "fetchTelemetryData baseUrl fetch deviceId st =
     (let st1 = st\<lparr>dashboard_loading := True, dashboard_error := None\<rparr>;
          failed = st1\<lparr>dashboard_error := Some no_connection_message, telemetryData := [],
                       metrics := zero_metrics, dashboard_loading := False\<rparr>
      in case getTelemetryHistory baseUrl fetch deviceId 30 of
           Inl e \<Rightarrow> failed
         | Inr history \<Rightarrow>
             if \<not> truthy history \<or> js_length history = JNum 0 then
               st1\<lparr>dashboard_error := Some no_telemetry_message, telemetryData := [],
                   metrics := zero_metrics, dashboard_loading := False\<rparr>
             else
               (case history of
                  JArr items \<Rightarrow>
                    (case chart_map 0 items of
                       Inl e \<Rightarrow> failed
                     | Inr chartData \<Rightarrow>
                         (case items of
                            [] \<Rightarrow> st1\<lparr>telemetryData := chartData, dashboard_loading := False\<rparr>
                          | latest # rest \<Rightarrow>
                              (case getProp latest ''battery_health_percentage'' of
                                 Inl e \<Rightarrow> failed
                               | Inr bh \<Rightarrow>
                              (case getProp latest ''battery_temperature'' of
                                 Inl e \<Rightarrow> failed
                               | Inr bt \<Rightarrow>
                                   st1\<lparr>telemetryData := chartData,
                                       metrics :=
                                         \<lparr>metrics_batteryHealth = js_or bh (JNum 0),
                                          metrics_thermalEfficiency = ThermalOf (js_or bt (JNum 0)),
                                          metrics_marketValue = 1200 - int (length items) * 50,
                                          circularYield = 124 / 10\<rparr>,
                                       dashboard_loading := False\<rparr>))))
                | _ \<Rightarrow> failed))"

section \<open>The lifecycle state machine and the event ledger\<close>

text \<open>
  The backend (\<^verbatim>\<open>backend/services\<close>, \<^verbatim>\<open>backend/api/routes\<close>) is not among the source files: the
  lifecycle, the scoring, the telemetry store and the orchestrator are modelled from the
  specification, sections 3 and 4.
\<close>

text \<open>Modelled from the spec: the statuses of a Device (section 3): \<^verbatim>\<open>active, under_repair,
  refurbished, parts_harvested, recycled, retired\<close>.\<close>

datatype DeviceStatus = Active | UnderRepair | Refurbished | PartsHarvested | Recycled | Retired

text \<open>Modelled from the spec: the event kinds of a LifecycleEvent (section 3):
  \<^verbatim>\<open>repair|refurbish|harvest_parts|recycle|resale\<close>.\<close>

datatype EventKind = Repair | Refurbish | HarvestParts | Recycle | Resale

text \<open>Modelled from the spec: the error of an illegal transition (sections 4.4 and 7).\<close>

datatype lifecycle_error = InvalidTransition

text \<open>Modelled from the spec: LifecycleEvent of section 3: device reference, event kind,
  timestamp, free-form metadata.\<close>

record LifecycleEvent =
  event_device :: string
  kind :: EventKind
  event_time :: nat
  metadata :: string

text \<open>Modelled from the spec: CircularityProfile of section 3: the score, the cumulative
  carbon offset in kg CO2e and the count of each event kind.\<close>

record CircularityProfile =
  score :: int
  carbon :: int
  repairs :: nat
  refurbishments :: nat
  harvests :: nat
  recycles :: nat
  resales :: nat

text \<open>Modelled from the spec: a Device as the lifecycle component holds it (sections 3 and
  4.4), with its ledger and its derived profile. \<open>baseline\<close> is the manufacturing, transport
  and usage baseline of the device's metadata.\<close>

record LifecycleDevice =
  identity :: string
  lifecycle_status :: DeviceStatus
  baseline :: int
  ledger :: "LifecycleEvent list"
  profile :: CircularityProfile

text \<open>Modelled from the spec: the transition table of section 4.4; the backend's state machine
  is not among the sources. The arrows are \<^verbatim>\<open>active -> under_repair -> active\<close> (repair
  completes), \<^verbatim>\<open>active -> refurbished\<close>, \<^verbatim>\<open>active|refurbished -> parts_harvested -> recycled\<close>,
  \<^verbatim>\<open>active|refurbished|parts_harvested -> recycled -> retired\<close> (terminal). An arrow is taken by
  the event kind that names its target; the arrow back from \<^verbatim>\<open>under_repair\<close> by the repair
  event that completes the repair. The spec names no event kind for \<^verbatim>\<open>recycled -> retired\<close> and
  no arrow for \<^verbatim>\<open>resale\<close>: the table has no entry for them. Every other pair is illegal.\<close>

fun transition :: "DeviceStatus \<Rightarrow> EventKind \<Rightarrow> DeviceStatus option" where
  "transition Active Repair = Some UnderRepair"
| "transition UnderRepair Repair = Some Active"
| "transition Active Refurbish = Some Refurbished"
| "transition Active HarvestParts = Some PartsHarvested"
| "transition Refurbished HarvestParts = Some PartsHarvested"
| "transition Active Recycle = Some Recycled"
| "transition Refurbished Recycle = Some Recycled"
| "transition PartsHarvested Recycle = Some Recycled"
| "transition s k = None"

text \<open>Modelled from the spec: the circularity score of section 4.4, a fold over the full
  ledger. The accumulator holds the points so far and whether a recycle event was already
  counted: base 70, +5 per repair, +10 per refurbishment, +8 per parts-harvest, +15 for a
  recycle event applied once, +1 per full year of age (\<open>age\<close>, in full years at the time of
  computation), the sum clamped to [0, 100].\<close>

fun score_step :: "int \<times> bool \<Rightarrow> LifecycleEvent \<Rightarrow> int \<times> bool" where
  "score_step (points, recycled) e =
     (case kind e of
        Repair \<Rightarrow> (points + 5, recycled)
      | Refurbish \<Rightarrow> (points + 10, recycled)
      | HarvestParts \<Rightarrow> (points + 8, recycled)
      | Recycle \<Rightarrow> (if recycled then points else points + 15, True)
      | Resale \<Rightarrow> (points, recycled))"

text \<open>Modelled from the spec: ``clamped to [0, 100]''.\<close>

definition clamp_score :: "int \<Rightarrow> int" where
  "clamp_score x = max 0 (min 100 x)"

text \<open>Modelled from the spec: the score of a ledger at an age, the fold started at the base
  and the years of age, then clamped.\<close>

definition circularityScore :: "LifecycleEvent list \<Rightarrow> nat \<Rightarrow> int" where
  "circularityScore events age = clamp_score (fst (foldl score_step (70 + int age, False) events))"

text \<open>Modelled from the spec: the carbon offset of section 4.4, the sum of the fixed offsets
  of the events (repair -5, refurbishment -30, parts-harvest -15, recycle -20 kg CO2e) minus
  the baseline.\<close>

fun event_offset :: "EventKind \<Rightarrow> int" where
  "event_offset Repair = - 5"
| "event_offset Refurbish = - 30"
| "event_offset HarvestParts = - 15"
| "event_offset Recycle = - 20"
| "event_offset Resale = 0"

text \<open>Modelled from the spec: the cumulative offset of a ledger, relative to the baseline.\<close>

definition carbonOffsetOf :: "LifecycleEvent list \<Rightarrow> int \<Rightarrow> int" where
  "carbonOffsetOf events base = foldl (\<lambda>acc e. acc + event_offset (kind e)) 0 events - base"

text \<open>Modelled from the spec: the count of one event kind in a ledger.\<close>

definition count_kind :: "EventKind \<Rightarrow> LifecycleEvent list \<Rightarrow> nat" where
  "count_kind k events = length (filter (\<lambda>e. kind e = k) events)"

text \<open>Modelled from the spec: the profile recomputed from the full ledger (section 3,
  CircularityProfile: score, cumulative carbon offset, counts of each event kind).\<close>

definition recompute :: "LifecycleEvent list \<Rightarrow> nat \<Rightarrow> int \<Rightarrow> CircularityProfile" where
  "recompute events age base =
     \<lparr>score = circularityScore events age,
      carbon = carbonOffsetOf events base,
      repairs = count_kind Repair events,
      refurbishments = count_kind Refurbish events,
      harvests = count_kind HarvestParts events,
      recycles = count_kind Recycle events,
      resales = count_kind Resale events\<rparr>"

text \<open>Modelled from the spec: \<^verbatim>\<open>appendEvent(deviceId, kind, metadata)\<close> of section 4.4, as a
  step on the device's state: the outcome and the state after the call. \<open>now\<close> is the time of
  the call and \<open>age\<close> the device's age in full years then. An illegal transition fails with
  \<open>InvalidTransition\<close> and the ledger is not appended; a legal one appends the event, moves the
  status along the table and recomputes the profile from the full ledger.\<close>

definition appendEvent ::
  "LifecycleDevice \<Rightarrow> EventKind \<Rightarrow> string \<Rightarrow> nat \<Rightarrow> nat \<Rightarrow>
     (lifecycle_error + CircularityProfile) \<times> LifecycleDevice" where
  "appendEvent d k md now age =
     (case transition (lifecycle_status d) k of
        None \<Rightarrow> (Inl InvalidTransition, d)
      | Some s \<Rightarrow>
          (let events = ledger d @ [\<lparr>event_device = identity d, kind = k, event_time = now,
                                     metadata = md\<rparr>];
               p = recompute events age (baseline d)
           in (Inr p, d\<lparr>lifecycle_status := s, ledger := events, profile := p\<rparr>)))"

section \<open>The telemetry store\<close>

text \<open>Modelled from the spec: TelemetrySnapshot of section 3.\<close>

record TelemetrySnapshot =
  snapshot_device :: string
  snapshot_time :: nat
  batteryCycleCount :: nat
  batteryHealthPercentage :: int
  temperature :: int
  thermalEventCount :: nat
  cpuThrottlingCount :: nat

text \<open>Modelled from the spec: the indication \<open>window\<close> gives instead of a short window
  (section 4.1).\<close>

datatype telemetry_error = InsufficientHistory

text \<open>Modelled from the spec: what the store is configured with (section 4.1, "a configured
  minimum count"; section 8, "a 30-day window requirement").\<close>

record telemetry_config =
  windowDays :: nat
  minimumCount :: nat

text \<open>Modelled from the spec: \<^verbatim>\<open>window(deviceId, days)\<close> of section 4.1; the backend's telemetry
  store is not among the sources. The store is the recorded series, timestamps in days. The
  window keeps the device's snapshots of the trailing \<open>days\<close> days before \<open>now\<close>, in the order
  of the series; with fewer than the configured minimum it is \<open>InsufficientHistory\<close>, never a
  shorter sequence.\<close>

definition in_window :: "string \<Rightarrow> nat \<Rightarrow> nat \<Rightarrow> TelemetrySnapshot \<Rightarrow> bool" where
  "in_window deviceId days now s =
     (snapshot_device s = deviceId \<and> snapshot_time s \<le> now \<and> now < snapshot_time s + days)"

text \<open>Modelled from the spec: the window, or \<open>InsufficientHistory\<close>.\<close>

definition window ::
  "telemetry_config \<Rightarrow> TelemetrySnapshot list \<Rightarrow> nat \<Rightarrow> string \<Rightarrow> nat \<Rightarrow>
     telemetry_error + TelemetrySnapshot list" where
  "window cfg store now deviceId days =
     (let w = filter (in_window deviceId days now) store
      in if length w < minimumCount cfg then Inl InsufficientHistory else Inr w)"

section \<open>The prediction gateway and the analysis orchestrator\<close>

text \<open>Modelled from the spec: the gateway's uniform contract of section 4.2. The three
  capabilities are black boxes; \<open>None\<close> is \<open>Unavailable\<close> (a timeout or a transport failure).
  The types of the three predictions are left open: the core never looks into them.\<close>

record ('h, 'g, 'p) gateway =
  predictHealth :: "TelemetrySnapshot list \<Rightarrow> 'h option"
  gradeImages :: "string list \<Rightarrow> 'g option"
  estimatePrice :: "string \<Rightarrow> 'p option"

text \<open>Modelled from the spec: the \<open>options\<close> of \<^verbatim>\<open>analyze(deviceId, options)\<close>, section 4.3:
  which of health, grading and pricing to include, and the fresh images if any.\<close>

record analyze_options =
  includeHealth :: bool
  includeGrading :: bool
  includePricing :: bool
  images :: "string list"

text \<open>Modelled from the spec: how one capability settled in a run (sections 4.2 and 4.3): not
  selected, left without input, \<open>Unavailable\<close>, or succeeded with its result.\<close>

datatype 'a settled = NotRequested | NoInput | Unavailable | Succeeded 'a

text \<open>Modelled from the spec: the component a settled capability gives the fused result,
  absent unless it succeeded; whether it was requested; whether it was unavailable.\<close>

fun component :: "'a settled \<Rightarrow> 'a option" where
  "component (Succeeded x) = Some x"
| "component s = None"

fun is_requested :: "'a settled \<Rightarrow> bool" where
  "is_requested NotRequested = False"
| "is_requested s = True"

fun is_unavailable :: "'a settled \<Rightarrow> bool" where
  "is_unavailable Unavailable = True"
| "is_unavailable s = False"

text \<open>Modelled from the spec: FusedAnalysis of section 3, the three components, each present
  or flagged absent (\<open>None\<close>).\<close>

record ('h, 'g, 'p) FusedAnalysis =
  health :: "'h option"
  grading :: "'g option"
  price :: "'p option"

text \<open>Modelled from the spec: the error of section 7.\<close>

datatype analyze_error = AllCapabilitiesUnavailable

text \<open>Modelled from the spec: a gateway call settles as \<open>Unavailable\<close> or as a success.\<close>

definition call_gateway :: "'a option \<Rightarrow> 'a settled" where
  "call_gateway r = (case r of None \<Rightarrow> Unavailable | Some x \<Rightarrow> Succeeded x)"

text \<open>Modelled from the spec: how each capability settles (section 4.3). Health pulls the
  telemetry window first; on \<open>InsufficientHistory\<close> the predictor is not called and health is
  absent.\<close>

definition settle_health ::
  "telemetry_config \<Rightarrow> TelemetrySnapshot list \<Rightarrow> nat \<Rightarrow> ('h, 'g, 'p) gateway \<Rightarrow> string \<Rightarrow>
     analyze_options \<Rightarrow> 'h settled" where
  "settle_health cfg store now gw deviceId opts =
     (if includeHealth opts then
        (case window cfg store now deviceId (windowDays cfg) of
           Inl InsufficientHistory \<Rightarrow> NoInput
         | Inr w \<Rightarrow> call_gateway (predictHealth gw w))
      else NotRequested)"

definition settle_grading :: "('h, 'g, 'p) gateway \<Rightarrow> analyze_options \<Rightarrow> 'g settled" where
  "settle_grading gw opts =
     (if includeGrading opts then call_gateway (gradeImages gw (images opts)) else NotRequested)"

definition settle_pricing :: "('h, 'g, 'p) gateway \<Rightarrow> string \<Rightarrow> analyze_options \<Rightarrow> 'p settled" where
  "settle_pricing gw deviceId opts =
     (if includePricing opts then call_gateway (estimatePrice gw deviceId) else NotRequested)"

text \<open>Modelled from the spec: \<^verbatim>\<open>analyze(deviceId, options)\<close>, sections 4.3 and 7. The selected
  capabilities settle (their order does not matter: they are pure); their results are then
  fused. The call fails with \<open>AllCapabilitiesUnavailable\<close> when capabilities were requested
  and every requested one came back \<open>Unavailable\<close> (section 7); otherwise each missing
  component is absent in the result. Health left without input by \<open>InsufficientHistory\<close> is
  absent, not unavailable: the call does not fail for it. The in-flight deduplication and the
  cache of section 4.3 are not modelled.\<close>

definition analyze ::
  "telemetry_config \<Rightarrow> TelemetrySnapshot list \<Rightarrow> nat \<Rightarrow> ('h, 'g, 'p) gateway \<Rightarrow> string \<Rightarrow>
     analyze_options \<Rightarrow> analyze_error + ('h, 'g, 'p) FusedAnalysis" where
  "analyze cfg store now gw deviceId opts =
     (let h = settle_health cfg store now gw deviceId opts;
          g = settle_grading gw opts;
          p = settle_pricing gw deviceId opts;
          requested = length (filter id [is_requested h, is_requested g, is_requested p]);
          unavailable = length (filter id [is_unavailable h, is_unavailable g, is_unavailable p])
      in if 0 < requested \<and> unavailable = requested then Inl AllCapabilitiesUnavailable
         else Inr \<lparr>health = component h, grading = component g, price = component p\<rparr>)"

section \<open>Concrete backends, devices and histories\<close>

text \<open>The values the examples below are evaluated on.\<close>

definition api_base :: string where
  "api_base = ''http://localhost:8000/api/v1''"

text \<open>A \<^verbatim>\<open>204 No Content\<close> answer: the status is ok and there is no body to parse.\<close>

definition no_content :: Response where
  "no_content = \<lparr>ok = True, status = 204, json = None\<rparr>"

definition not_found :: Response where
  "not_found = \<lparr>ok = False, status = 404,
      json = Some (JObj [(''detail'', JStr ''Device not found'')])\<rparr>"

text \<open>A backend that answers every request with status 200 and the given JSON value.\<close>

definition json_backend :: "jsval \<Rightarrow> fetch" where
  "json_backend answer = (\<lambda>url config. Inr \<lparr>ok = True, status = 200, json = Some answer\<rparr>)"

text \<open>A backend that answers every request with what it received: the URL, the method, the
  headers and the body.\<close>

definition echo_backend :: fetch where
  "echo_backend = (\<lambda>url config.
     Inr \<lparr>ok = True, status = 200,
          json = Some (JObj [(''url'', JStr url),
                             (''method'', case http_method config of
                                            None \<Rightarrow> JUndefined | Some m \<Rightarrow> JStr m),
                             (''headers'', JObj (map (\<lambda>(k, v). (k, JStr v)) (headers config))),
                             (''body'', case body config of
                                          None \<Rightarrow> JUndefined | Some b \<Rightarrow> b)])\<rparr>)"

definition idle_scanner :: scanner_state where
  "idle_scanner = \<lparr>stream = True, isScanning = False, result = None, scan_error = None\<rparr>"

definition answer_without_price :: jsval where
  "answer_without_price =
     JObj [(''grading'', JObj [(''grade'', JStr ''Fair''), (''confidence'', JNum (3 / 5)),
                              (''defects'', JArr [JStr ''scratch'']),
                              (''suggested_action'', JStr ''Repair'')])]"

definition answer_letter_grade :: jsval where
  "answer_letter_grade =
     JObj [(''grading'', JObj [(''grade'', JStr ''A''), (''confidence'', JNum (9 / 10)),
                              (''defects'', JArr []), (''suggested_action'', JStr ''Resell'')]),
           (''price_estimate'', JObj [(''estimated_price'', JNum 640)])]"

definition answer_mint :: jsval where
  "answer_mint =
     JObj [(''grading'', JObj [(''grade'', JStr ''Mint''), (''confidence'', JNum (9 / 10)),
                              (''defects'', JArr []), (''suggested_action'', JStr ''Resell'')]),
           (''price_estimate'', JObj [(''estimated_price'', JNum 640)])]"

text \<open>A backend with a registered device and a minted passport, and no analysis route.\<close>

definition minted_passport :: jsval where
  "minted_passport =
     JObj [(''device_id'', JStr ''LP-99X-2026-ALPHA''),
           (''mint_address'', JStr ''7xKXtg2CW87d97TXJSDpbD5jBkheTqA83TZRuJosgAsU''),
           (''circularity_score'', JNum 85),
           (''carbon_footprint_saved'', JNum 55)]"

definition registered_device :: jsval where
  "registered_device =
     JObj [(''id'', JStr ''LP-99X-2026-ALPHA''), (''model'', JStr ''iPhone 14 Pro''),
           (''status'', JStr ''active'')]"

definition passport_backend :: "jsval \<Rightarrow> fetch" where
  "passport_backend passport = (\<lambda>url config.
     if url = api_base @ ''/devices/LP-99X-2026-ALPHA''
     then Inr \<lparr>ok = True, status = 200, json = Some registered_device\<rparr>
     else if url = api_base @ ''/passports/device/LP-99X-2026-ALPHA''
     then Inr \<lparr>ok = True, status = 200, json = Some passport\<rparr>
     else Inr \<lparr>ok = False, status = 404, json = Some (JObj [(''detail'', JStr ''Not Found'')])\<rparr>)"

definition loading_passport :: passport_state where
  "loading_passport = \<lparr>device = None, loading = True, passport_error = None\<rparr>"

text \<open>Device D1 of the spec's scenario, refurbished after a repair.\<close>

definition refurbished_D1 :: LifecycleDevice where
  "refurbished_D1 =
     \<lparr>identity = ''D1'', lifecycle_status = Refurbished, baseline = 0,
      ledger = [\<lparr>event_device = ''D1'', kind = Repair, event_time = 10, metadata = []\<rparr>,
                \<lparr>event_device = ''D1'', kind = Refurbish, event_time = 20, metadata = []\<rparr>],
      profile = recompute
        [\<lparr>event_device = ''D1'', kind = Repair, event_time = 10, metadata = []\<rparr>,
         \<lparr>event_device = ''D1'', kind = Refurbish, event_time = 20, metadata = []\<rparr>] 1 0\<rparr>"

definition retired_D2 :: LifecycleDevice where
  "retired_D2 =
     \<lparr>identity = ''D2'', lifecycle_status = Retired, baseline = 0,
      ledger = [\<lparr>event_device = ''D2'', kind = Recycle, event_time = 10, metadata = []\<rparr>],
      profile = recompute
        [\<lparr>event_device = ''D2'', kind = Recycle, event_time = 10, metadata = []\<rparr>] 3 0\<rparr>"

text \<open>Ten days of history, one snapshot a day, against a 30-day window requirement.\<close>

definition daily :: "string \<Rightarrow> nat \<Rightarrow> TelemetrySnapshot" where
  "daily deviceId t =
     \<lparr>snapshot_device = deviceId, snapshot_time = t, batteryCycleCount = 300,
      batteryHealthPercentage = 91, temperature = 31, thermalEventCount = 0,
      cpuThrottlingCount = 0\<rparr>"

definition ten_days :: "TelemetrySnapshot list" where
  "ten_days = map (daily ''D1'') [91, 92, 93, 94, 95, 96, 97, 98, 99, 100]"

text \<open>Thirty days of history, days 71 to 100.\<close>

definition full_month :: "TelemetrySnapshot list" where
  "full_month = map (daily ''D1'') [71 ..< 101]"

definition thirty_days :: telemetry_config where
  "thirty_days = \<lparr>windowDays = 30, minimumCount = 30\<rparr>"

definition health_only :: analyze_options where
  "health_only =
     \<lparr>includeHealth = True, includeGrading = False, includePricing = False, images = []\<rparr>"

definition everything :: analyze_options where
  "everything =
     \<lparr>includeHealth = True, includeGrading = True, includePricing = True,
      images = [''front.jpg'']\<rparr>"

text \<open>A gateway whose three capabilities are all down, and one where only grading is.\<close>

definition gateway_down :: "(nat, string, nat) gateway" where
  "gateway_down =
     \<lparr>predictHealth = (\<lambda>w. None), gradeImages = (\<lambda>imgs. None), estimatePrice = (\<lambda>d. None)\<rparr>"

definition grading_down :: "(nat, string, nat) gateway" where
  "grading_down =
     \<lparr>predictHealth = (\<lambda>w. Some 400), gradeImages = (\<lambda>imgs. None),
      estimatePrice = (\<lambda>d. Some 640)\<rparr>"

section \<open>Properties of the API client\<close>

lemma getProp_getOpt: "v \<noteq> JUndefined \<Longrightarrow> v \<noteq> JNull \<Longrightarrow> getProp v k = Inr (getOpt v k)"
  by (cases v) simp_all

lemma truthy_getOpt_defined: "truthy (getOpt v k) \<Longrightarrow> v \<noteq> JUndefined \<and> v \<noteq> JNull"
  by (cases v) auto

text \<open>What \<open>request\<close> does once \<open>fetch\<close> has resolved with a response.\<close>

lemma request_resolved:
  assumes "fetch (baseUrl @ endpoint) (options\<lparr>headers := merge_headers (headers options)\<rparr>) = Inr res"
  shows "request baseUrl fetch endpoint options =
     (if \<not> ok res then
        (case json res of
           None \<Rightarrow> Inl (JsError (JStr (http_status_message (status res))))
         | Some b \<Rightarrow>
             (case getProp b ''detail'' of
                Inl e \<Rightarrow> Inl e
              | Inr d \<Rightarrow> Inl (JsError (js_or d (JStr (http_status_message (status res)))))))
      else (case json res of None \<Rightarrow> Inl JsSyntaxError | Some v \<Rightarrow> Inr v))"
  using assms by (simp add: request_def js_or_def split: option.splits)

lemma request_never_returns_on_failure:
  assumes "fetch (baseUrl @ endpoint) (options\<lparr>headers := merge_headers (headers options)\<rparr>) = Inr res"
      and "\<not> ok res"
  shows "\<exists>e. request baseUrl fetch endpoint options = Inl e"
  using request_resolved [of "fetch" baseUrl endpoint options res] assms
  by (simp split: option.splits sum.splits)

lemma request_cong:
  assumes "f (baseUrl @ endpoint) (options\<lparr>headers := merge_headers (headers options)\<rparr>) =
           f' (baseUrl @ endpoint) (options\<lparr>headers := merge_headers (headers options)\<rparr>)"
  shows "request baseUrl f endpoint options = request baseUrl f' endpoint options"
  using assms by (simp add: request_def)

text \<open>
  Claim C10, as amended. For every call of \<open>request\<close> whose \<open>fetch\<close> resolved with a response:
  the call returns a value exactly when the status is ok and the body parses as JSON, and the
  value is then the parsed body; with an ok status and a body that does not parse it rejects
  with the parse error; on a status that is not ok it never returns a value; there it throws
  an Error made from \<^verbatim>\<open>HTTP <status>\<close> when the body does not parse, and from the body's
  \<^verbatim>\<open>detail\<close> when the body parses to a JSON value other than \<^verbatim>\<open>null\<close> whose \<^verbatim>\<open>detail\<close> is truthy,
  from \<^verbatim>\<open>HTTP <status>\<close> when that \<^verbatim>\<open>detail\<close> is missing or falsy.
\<close>

theorem request_result:
  assumes f: "fetch (baseUrl @ endpoint) (options\<lparr>headers := merge_headers (headers options)\<rparr>) = Inr res"
  shows "((\<exists>v. request baseUrl fetch endpoint options = Inr v) \<longleftrightarrow> ok res \<and> json res \<noteq> None)
     \<and> (\<forall>v. ok res \<and> json res = Some v \<longrightarrow> request baseUrl fetch endpoint options = Inr v)
     \<and> (ok res \<and> json res = None \<longrightarrow> request baseUrl fetch endpoint options = Inl JsSyntaxError)
     \<and> (\<not> ok res \<longrightarrow> (\<exists>e. request baseUrl fetch endpoint options = Inl e))
     \<and> (\<not> ok res \<and> json res = None \<longrightarrow>
          request baseUrl fetch endpoint options =
            Inl (JsError (JStr (http_status_message (status res)))))
     \<and> (\<forall>b. \<not> ok res \<and> json res = Some b \<and> b \<noteq> JNull \<and> b \<noteq> JUndefined \<longrightarrow>
          request baseUrl fetch endpoint options =
            Inl (JsError (js_or (getOpt b ''detail'') (JStr (http_status_message (status res))))))"
proof -
  let ?r = "request baseUrl fetch endpoint options"
  note resolved = request_resolved [of "fetch" baseUrl endpoint options res, OF f]
  have 1: "(\<exists>v. ?r = Inr v) \<longleftrightarrow> ok res \<and> json res \<noteq> None"
    by (auto simp: resolved split: option.splits sum.splits)
  have 2: "\<forall>v. ok res \<and> json res = Some v \<longrightarrow> ?r = Inr v"
    by (simp add: resolved)
  have 3: "ok res \<and> json res = None \<longrightarrow> ?r = Inl JsSyntaxError"
    by (simp add: resolved)
  have 4: "\<not> ok res \<longrightarrow> (\<exists>e. ?r = Inl e)"
    using request_never_returns_on_failure [of "fetch" baseUrl endpoint options res] f by blast
  have 5: "\<not> ok res \<and> json res = None \<longrightarrow>
          ?r = Inl (JsError (JStr (http_status_message (status res))))"
    by (simp add: resolved)
  have 6: "\<forall>b. \<not> ok res \<and> json res = Some b \<and> b \<noteq> JNull \<and> b \<noteq> JUndefined \<longrightarrow>
          ?r = Inl (JsError (js_or (getOpt b ''detail'') (JStr (http_status_message (status res)))))"
    by (simp add: resolved getProp_getOpt)
  from 1 2 3 4 5 6 show ?thesis by blast
qed

text \<open>The theorem at a 404 answer whose body carries a \<^verbatim>\<open>detail\<close>: the Error made from it.\<close>

theorem request_result_witness:
  "request api_base (\<lambda>url config. Inr not_found) ''/devices/D1'' no_options =
     Inl (JsError (JStr ''Device not found''))"
proof -
  have h: "(\<lambda>url config. Inr not_found) (api_base @ ''/devices/D1'')
             (no_options\<lparr>headers := merge_headers (headers no_options)\<rparr>) = Inr not_found"
    by simp
  show ?thesis
    using request_result [of "\<lambda>url config. Inr not_found" api_base "''/devices/D1''" no_options
        not_found, OF h]
    by (simp add: not_found_def js_or_def)
qed

text \<open>Claim C10 as stated fails: the status is ok, and the call does not return the parsed
  body (there is none) but rejects.\<close>

theorem request_ok_unparsed_counterexample:
  "ok no_content \<and>
   request api_base (\<lambda>url config. Inr no_content) ''/devices/D1'' no_options = Inl JsSyntaxError"
  by (simp add: request_def no_content_def)

section \<open>What the client can select in an analysis\<close>

lemma endpoint_injective:
  "analyzeDevice_endpoint d g p = analyzeDevice_endpoint d g' p' \<longleftrightarrow> g = g' \<and> p = p'"
  by (cases g; cases g'; cases p; cases p')
     (simp_all add: analyzeDevice_endpoint_def analyzeDevice_params_def bool_toString_def)

text \<open>What \<open>analyzeDevice\<close> sends, as the echoing backend reports it.\<close>

lemma analyzeDevice_echo:
  "analyzeDevice baseUrl echo_backend d g p imgs =
     Inr (JObj [(''url'', JStr (baseUrl @ ''/analysis/'' @ d @ ''?include_grading='' @
                   bool_toString g @ ''&include_pricing='' @ bool_toString p)),
                (''method'', JStr ''POST''),
                (''headers'', JObj [(''Content-Type'', JStr ''application/json'')]),
                (''body'', case imgs of
                             None \<Rightarrow> JUndefined
                           | Some urls \<Rightarrow> JObj [(''image_urls'', JArr (map JStr urls))])])"
  by (cases imgs)
     (simp_all add: analyzeDevice_def request_def echo_backend_def analyzeDevice_endpoint_def
        analyzeDevice_params_def analyzeDevice_options_def merge_headers_def)

text \<open>\<open>analyzeDevice\<close> makes that one call and no other: two backends that answer it alike
  give the same result.\<close>

lemma analyzeDevice_one_call:
  assumes "f' (baseUrl @ ''/analysis/'' @ d @ ''?include_grading='' @ bool_toString g @
                 ''&include_pricing='' @ bool_toString p)
              \<lparr>http_method = Some ''POST'',
               headers = [(''Content-Type'', ''application/json'')],
               body = (case imgs of
                         None \<Rightarrow> None
                       | Some urls \<Rightarrow> Some (JObj [(''image_urls'', JArr (map JStr urls))]))\<rparr> =
           f (baseUrl @ ''/analysis/'' @ d @ ''?include_grading='' @ bool_toString g @
                 ''&include_pricing='' @ bool_toString p)
              \<lparr>http_method = Some ''POST'',
               headers = [(''Content-Type'', ''application/json'')],
               body = (case imgs of
                         None \<Rightarrow> None
                       | Some urls \<Rightarrow> Some (JObj [(''image_urls'', JArr (map JStr urls))]))\<rparr>"
  shows "analyzeDevice baseUrl f' d g p imgs = analyzeDevice baseUrl f d g p imgs"
  unfolding analyzeDevice_def
  by (rule request_cong)
     (use assms in \<open>simp add: analyzeDevice_endpoint_def analyzeDevice_params_def
        analyzeDevice_options_def merge_headers_def\<close>)

text \<open>
  Claim C6, as amended. \<open>analyzeDevice\<close> takes two flags, for grading and for pricing, and
  optional image URLs, and no flag for health. The query it builds has exactly the two
  selectors \<^verbatim>\<open>include_grading\<close> and \<^verbatim>\<open>include_pricing\<close>, each the text of its flag, and the two
  are independent (different flags give different requests). It sends one request: a POST to
  \<^verbatim>\<open>/analysis/<deviceId>?include_grading=<flag>&include_pricing=<flag>\<close> with the JSON content
  type, whose body is \<^verbatim>\<open>{image_urls: [...]}\<close> with the images given, in their order, when images
  are supplied, and which has no body otherwise; its result depends on the backend through
  that one request only.
\<close>

theorem analyzeDevice_selects_grading_and_pricing:
  "map fst (analyzeDevice_params g p) = [''include_grading'', ''include_pricing'']
   \<and> map_of (analyzeDevice_params g p) ''include_grading'' = Some (bool_toString g)
   \<and> map_of (analyzeDevice_params g p) ''include_pricing'' = Some (bool_toString p)
   \<and> (analyzeDevice_endpoint d g p = analyzeDevice_endpoint d g' p' \<longleftrightarrow> g = g' \<and> p = p')
   \<and> analyzeDevice baseUrl echo_backend d g p imgs =
       Inr (JObj [(''url'', JStr (baseUrl @ ''/analysis/'' @ d @ ''?include_grading='' @
                     bool_toString g @ ''&include_pricing='' @ bool_toString p)),
                  (''method'', JStr ''POST''),
                  (''headers'', JObj [(''Content-Type'', JStr ''application/json'')]),
                  (''body'', case imgs of
                               None \<Rightarrow> JUndefined
                             | Some urls \<Rightarrow> JObj [(''image_urls'', JArr (map JStr urls))])])
   \<and> (\<forall>f f'.
         f' (baseUrl @ ''/analysis/'' @ d @ ''?include_grading='' @ bool_toString g @
                 ''&include_pricing='' @ bool_toString p)
              \<lparr>http_method = Some ''POST'',
               headers = [(''Content-Type'', ''application/json'')],
               body = (case imgs of
                         None \<Rightarrow> None
                       | Some urls \<Rightarrow> Some (JObj [(''image_urls'', JArr (map JStr urls))]))\<rparr> =
         f (baseUrl @ ''/analysis/'' @ d @ ''?include_grading='' @ bool_toString g @
                 ''&include_pricing='' @ bool_toString p)
              \<lparr>http_method = Some ''POST'',
               headers = [(''Content-Type'', ''application/json'')],
               body = (case imgs of
                         None \<Rightarrow> None
                       | Some urls \<Rightarrow> Some (JObj [(''image_urls'', JArr (map JStr urls))]))\<rparr>
         \<longrightarrow> analyzeDevice baseUrl f' d g p imgs = analyzeDevice baseUrl f d g p imgs)"
proof -
  have keys: "map fst (analyzeDevice_params g p) = [''include_grading'', ''include_pricing'']"
    by (simp add: analyzeDevice_params_def)
  have g: "map_of (analyzeDevice_params g p) ''include_grading'' = Some (bool_toString g)"
    by (simp add: analyzeDevice_params_def)
  have p: "map_of (analyzeDevice_params g p) ''include_pricing'' = Some (bool_toString p)"
    by (simp add: analyzeDevice_params_def)
  note inj = endpoint_injective [of d g p g' p']
  note sent = analyzeDevice_echo [of baseUrl d g p imgs]
  note one = analyzeDevice_one_call [of _ baseUrl d g p imgs]
  from keys g p inj sent one show ?thesis by blast
qed

text \<open>The theorem at device D1: deselecting pricing changes the request; with one image the
  body carries it, with none there is no body.\<close>

theorem analyzeDevice_selects_grading_and_pricing_witness:
  "analyzeDevice_endpoint ''D1'' True True \<noteq> analyzeDevice_endpoint ''D1'' True False
   \<and> analyzeDevice api_base echo_backend ''D1'' True False (Some [''front.jpg'']) =
       Inr (JObj [(''url'', JStr ''http://localhost:8000/api/v1/analysis/D1?include_grading=true&include_pricing=false''),
                  (''method'', JStr ''POST''),
                  (''headers'', JObj [(''Content-Type'', JStr ''application/json'')]),
                  (''body'', JObj [(''image_urls'', JArr [JStr ''front.jpg''])])])
   \<and> getOpt (case analyzeDevice api_base echo_backend ''D1'' True True None of
                Inl e \<Rightarrow> JNull | Inr v \<Rightarrow> v) ''body'' = JUndefined"
  using analyzeDevice_selects_grading_and_pricing
          [of True True "''D1''" True False api_base "Some [''front.jpg'']"]
        analyzeDevice_selects_grading_and_pricing
          [of True True "''D1''" True True api_base None]
        analyzeDevice_selects_grading_and_pricing
          [of True False "''D1''" True False api_base "Some [''front.jpg'']"]
  by (simp add: api_base_def bool_toString_def)

text \<open>Claim C6 as stated fails: with everything deselected that the client can deselect, the
  request names grading and pricing only; there is no third selector, for health.\<close>

theorem analyzeDevice_no_health_selector_counterexample:
  "analyzeDevice_endpoint ''D1'' False False =
     ''/analysis/D1?include_grading=false&include_pricing=false''
   \<and> map fst (analyzeDevice_params False False) = [''include_grading'', ''include_pricing'']
   \<and> length (analyzeDevice_params False False) = 2"
  by (simp add: analyzeDevice_endpoint_def analyzeDevice_params_def bool_toString_def)

section \<open>What the scanner shows\<close>

lemma build_result_eq:
  assumes "truthy (getOpt r ''grading'')"
  shows "build_result r =
     Inr \<lparr>grade = js_or (getOpt (getOpt r ''grading'') ''grade'') (JStr ''Good''),
          confidence = js_or (getOpt (getOpt r ''grading'') ''confidence'') (JNum (85 / 100)),
          defects = js_or (getOpt (getOpt r ''grading'') ''defects'') (JArr []),
          suggestedAction =
            js_or (getOpt (getOpt r ''grading'') ''suggested_action'') (JStr ''Resell''),
          estimatedValue =
            js_or (getOpt (getOpt r ''price_estimate'') ''estimated_price'') (JNum 980)\<rparr>"
proof -
  have r: "r \<noteq> JUndefined" "r \<noteq> JNull"
    using assms truthy_getOpt_defined by blast+
  have g: "getOpt r ''grading'' \<noteq> JUndefined" "getOpt r ''grading'' \<noteq> JNull"
    using assms by auto
  show ?thesis
    by (simp add: build_result_def getProp_getOpt [OF r] getProp_getOpt [OF g])
qed

lemma captureAndAnalyze_graded:
  assumes "gradeDevice baseUrl fetch (scan_request dataUrl) = Inr r"
      and "truthy (getOpt r ''grading'')"
  shows "result (captureAndAnalyze baseUrl fetch True True dataUrl st) =
     Some \<lparr>grade = js_or (getOpt (getOpt r ''grading'') ''grade'') (JStr ''Good''),
          confidence = js_or (getOpt (getOpt r ''grading'') ''confidence'') (JNum (85 / 100)),
          defects = js_or (getOpt (getOpt r ''grading'') ''defects'') (JArr []),
          suggestedAction =
            js_or (getOpt (getOpt r ''grading'') ''suggested_action'') (JStr ''Resell''),
          estimatedValue =
            js_or (getOpt (getOpt r ''price_estimate'') ''estimated_price'') (JNum 980)\<rparr>"
  using assms by (simp add: captureAndAnalyze_def build_result_eq)

lemma captureAndAnalyze_ungraded:
  assumes "gradeDevice baseUrl fetch (scan_request dataUrl) = Inr r"
      and "\<not> truthy (getOpt r ''grading'')"
  shows "result (captureAndAnalyze baseUrl fetch True True dataUrl st) = None
       \<and> scan_error (captureAndAnalyze baseUrl fetch True True dataUrl st) = scan_error st"
  using assms by (simp add: captureAndAnalyze_def)

lemma gradeDevice_json_backend: "gradeDevice b (json_backend a) req = Inr a"
  by (simp add: gradeDevice_def request_def json_backend_def)

lemma good_on_scale: "on_grade_scale (JStr ''Good'')"
  by (simp add: on_grade_scale_def all_DeviceGrades_def)

text \<open>
  Claim C3, as amended. When the grading request is answered and the answer has a grading
  component, the scanner shows a result whose five members are all populated: a grade,
  confidence, defect list or suggested action missing from the grading component, and a price
  estimate missing from the answer, are replaced by the fixed defaults \<^verbatim>\<open>'Good'\<close>, \<^verbatim>\<open>0.85\<close>,
  \<^verbatim>\<open>[]\<close>, \<^verbatim>\<open>'Resell'\<close> and \<^verbatim>\<open>980\<close>. Only when the grading component itself is missing is nothing
  shown: the result stays \<^verbatim>\<open>null\<close> and no error is set.
\<close>

theorem captureAndAnalyze_fills_defaults:
  assumes g: "gradeDevice baseUrl fetch (scan_request dataUrl) = Inr r"
  shows "(truthy (getOpt r ''grading'') \<longrightarrow>
          (\<exists>gr. result (captureAndAnalyze baseUrl fetch True True dataUrl st) = Some gr
             \<and> truthy (grade gr) \<and> truthy (confidence gr) \<and> truthy (defects gr)
             \<and> truthy (suggestedAction gr) \<and> truthy (estimatedValue gr)
             \<and> (\<not> truthy (getOpt (getOpt r ''grading'') ''grade'') \<longrightarrow> grade gr = JStr ''Good'')
             \<and> (\<not> truthy (getOpt (getOpt r ''grading'') ''confidence'') \<longrightarrow>
                  confidence gr = JNum (85 / 100))
             \<and> (\<not> truthy (getOpt (getOpt r ''grading'') ''defects'') \<longrightarrow> defects gr = JArr [])
             \<and> (\<not> truthy (getOpt (getOpt r ''grading'') ''suggested_action'') \<longrightarrow>
                  suggestedAction gr = JStr ''Resell'')
             \<and> (\<not> truthy (getOpt (getOpt r ''price_estimate'') ''estimated_price'') \<longrightarrow>
                  estimatedValue gr = JNum 980)))
       \<and> (\<not> truthy (getOpt r ''grading'') \<longrightarrow>
            result (captureAndAnalyze baseUrl fetch True True dataUrl st) = None
          \<and> scan_error (captureAndAnalyze baseUrl fetch True True dataUrl st) = scan_error st)"
proof (cases "truthy (getOpt r ''grading'')")
  case True
  show ?thesis
    using True captureAndAnalyze_graded [OF g True, of st]
    by (simp add: js_or_def)
next
  case False
  show ?thesis
    using False captureAndAnalyze_ungraded [OF g False, of st] by simp
qed

text \<open>The theorem at an answer with a grading component and no price estimate.\<close>

theorem captureAndAnalyze_fills_defaults_witness:
  "\<exists>gr. result (captureAndAnalyze api_base (json_backend answer_without_price) True True
            ''data:image/jpeg;base64,AAAA'' idle_scanner) = Some gr
      \<and> truthy (grade gr) \<and> estimatedValue gr = JNum 980"
proof -
  have t: "truthy (getOpt answer_without_price ''grading'')"
    by (simp add: answer_without_price_def)
  show ?thesis
    using captureAndAnalyze_fills_defaults [OF gradeDevice_json_backend,
        of answer_without_price api_base "''data:image/jpeg;base64,AAAA''" idle_scanner] t
    by (auto simp: answer_without_price_def)
qed

text \<open>Claim C3 as stated fails: the backend returned no price estimate, and the result shows
  the price 980.\<close>

theorem missing_price_defaulted_counterexample:
  "getOpt answer_without_price ''price_estimate'' = JUndefined \<and>
   map_option estimatedValue
     (result (captureAndAnalyze api_base (json_backend answer_without_price) True True
        ''data:image/jpeg;base64,AAAA'' idle_scanner)) = Some (JNum 980)"
  by (simp add: captureAndAnalyze_def gradeDevice_json_backend build_result_def
      answer_without_price_def js_or_def idle_scanner_def)

text \<open>
  Claim C8, as amended. The grade the scanner shows is the grade of the backend's answer, passed
  through unchecked when it is truthy, and \<^verbatim>\<open>'Good'\<close> otherwise. It is on the five-point scale
  exactly when the backend's grade is missing or falsy, or is itself on the scale: the client
  keeps the scale and does not enforce it.
\<close>

theorem captureAndAnalyze_grade_scale:
  assumes g: "gradeDevice baseUrl fetch (scan_request dataUrl) = Inr r"
      and t: "truthy (getOpt r ''grading'')"
  shows "\<exists>gr. result (captureAndAnalyze baseUrl fetch True True dataUrl st) = Some gr
            \<and> grade gr = js_or (getOpt (getOpt r ''grading'') ''grade'') (JStr ''Good'')
            \<and> (on_grade_scale (grade gr) \<longleftrightarrow>
                 \<not> truthy (getOpt (getOpt r ''grading'') ''grade'')
                 \<or> on_grade_scale (getOpt (getOpt r ''grading'') ''grade''))"
proof -
  let ?g = "getOpt (getOpt r ''grading'') ''grade''"
  have "on_grade_scale (js_or ?g (JStr ''Good'')) \<longleftrightarrow> \<not> truthy ?g \<or> on_grade_scale ?g"
    using good_on_scale by (simp add: js_or_def)
  then show ?thesis
    using captureAndAnalyze_graded [OF g t, of st] by simp
qed

text \<open>The theorem at an answer graded \<^verbatim>\<open>'Mint'\<close>.\<close>

theorem captureAndAnalyze_grade_scale_witness:
  "\<exists>gr. result (captureAndAnalyze api_base (json_backend answer_mint) True True
            ''data:image/jpeg;base64,AAAA'' idle_scanner) = Some gr
      \<and> grade gr = JStr ''Mint'' \<and> on_grade_scale (grade gr)"
proof -
  have t: "truthy (getOpt answer_mint ''grading'')"
    by (simp add: answer_mint_def)
  have m: "on_grade_scale (JStr ''Mint'')"
    by (simp add: on_grade_scale_def all_DeviceGrades_def)
  show ?thesis
    using captureAndAnalyze_grade_scale [OF gradeDevice_json_backend t,
        of api_base "''data:image/jpeg;base64,AAAA''" idle_scanner] m
    by (auto simp: answer_mint_def js_or_def)
qed

text \<open>Claim C8 as stated fails: the backend grades with the letter A, and the result's grade is
  \<^verbatim>\<open>'A'\<close>, which is none of the five.\<close>

theorem letter_grade_counterexample:
  "map_option grade
     (result (captureAndAnalyze api_base (json_backend answer_letter_grade) True True
        ''data:image/jpeg;base64,AAAA'' idle_scanner)) = Some (JStr ''A'')
   \<and> \<not> on_grade_scale (JStr ''A'')"
  by (simp add: captureAndAnalyze_def gradeDevice_json_backend build_result_def
      answer_letter_grade_def js_or_def idle_scanner_def on_grade_scale_def all_DeviceGrades_def)

section \<open>What the passport view shows\<close>

lemma deviceInfo_passport:
  "deviceInfo deviceId deviceData analysisData = Inr info \<Longrightarrow>
     passportId info = ''SOL_DPP_'' @ last7 deviceId \<and> carbonOffset info = 452 / 10
     \<and> repairHistory info = fixed_repairHistory"
  by (auto simp: deviceInfo_def split: sum.splits)

lemma fetchDeviceData_device:
  "device (fetchDeviceData baseUrl fetch deviceId st) = Some info \<Longrightarrow>
     \<exists>deviceData analysisData. deviceInfo deviceId deviceData analysisData = Inr info"
  by (auto simp: fetchDeviceData_def Let_def split: sum.splits if_splits)

lemma fetchDeviceData_ignores_passport_endpoint:
  assumes agree:
    "\<forall>url config. url \<noteq> baseUrl @ ''/passports/device/'' @ deviceId \<longrightarrow> f url config = f' url config"
  shows "fetchDeviceData baseUrl f deviceId st = fetchDeviceData baseUrl f' deviceId st"
proof -
  have d: "getDevice baseUrl f deviceId = getDevice baseUrl f' deviceId"
    unfolding getDevice_def by (rule request_cong) (simp add: agree)
  have a: "analyzeDevice baseUrl f deviceId True True None =
           analyzeDevice baseUrl f' deviceId True True None"
    unfolding analyzeDevice_def
    by (rule request_cong) (simp add: agree analyzeDevice_endpoint_def)
  show ?thesis
    unfolding fetchDeviceData_def d a ..
qed

lemma passport_backend_device:
  "getDevice api_base (passport_backend p) component_deviceId = Inr registered_device"
  by (simp add: getDevice_def request_def passport_backend_def component_deviceId_def)

lemma passport_backend_analysis:
  "analyzeDevice api_base (passport_backend p) component_deviceId True True None =
     Inl (JsError (JStr ''Not Found''))"
  by (simp add: analyzeDevice_def request_def passport_backend_def component_deviceId_def
      analyzeDevice_endpoint_def analyzeDevice_params_def bool_toString_def api_base_def js_or_def)

lemma shown_passport:
  "device (fetchDeviceData api_base (passport_backend p) component_deviceId loading_passport) =
     Some \<lparr>device_id = JStr ''LP-99X-2026-ALPHA'', model = JStr ''iPhone 14 Pro'',
           serialNumber = JStr ''N/A'', passportId = ''SOL_DPP_6-ALPHA'',
           currentGrade = JStr ''Not Graded'', currentValue = JNum 0,
           predictedValueDropDate = ''2026-06-20'', carbonOffset = 452 / 10,
           device_status = JStr ''active'', repairHistory = fixed_repairHistory\<rparr>"
  unfolding fetchDeviceData_def passport_backend_device passport_backend_analysis
  by (simp add: registered_device_def deviceInfo_def js_or_def loading_passport_def last7_def
      component_deviceId_def)

text \<open>The passport data built from a device answer and an analysis answer.\<close>

lemma deviceInfo_eq:
  assumes "truthy deviceData"
  shows "deviceInfo deviceId deviceData analysisData =
     Inr \<lparr>device_id = js_or (getOpt deviceData ''id'') (JStr deviceId),
          model = js_or (getOpt deviceData ''model'') (JStr ''Unknown Model''),
          serialNumber = js_or (getOpt deviceData ''serialNumber'') (JStr ''N/A''),
          passportId = ''SOL_DPP_'' @ last7 deviceId,
          currentGrade =
            js_or (getOpt (getOpt analysisData ''grading'') ''grade'') (JStr ''Not Graded''),
          currentValue =
            js_or (getOpt (getOpt analysisData ''price_estimate'') ''estimated_price'') (JNum 0),
          predictedValueDropDate = ''2026-06-20'',
          carbonOffset = 452 / 10,
          device_status = js_or (getOpt deviceData ''status'') (JStr ''unknown''),
          repairHistory = fixed_repairHistory\<rparr>"
proof -
  have d: "deviceData \<noteq> JUndefined" "deviceData \<noteq> JNull"
    using assms by auto
  show ?thesis
    by (simp add: deviceInfo_def getProp_getOpt [OF d])
qed

lemma fetchDeviceData_found:
  assumes "getDevice baseUrl f deviceId = Inr deviceData" and "truthy deviceData"
  shows "device (fetchDeviceData baseUrl f deviceId st) =
           Some \<lparr>device_id = js_or (getOpt deviceData ''id'') (JStr deviceId),
                model = js_or (getOpt deviceData ''model'') (JStr ''Unknown Model''),
                serialNumber = js_or (getOpt deviceData ''serialNumber'') (JStr ''N/A''),
                passportId = ''SOL_DPP_'' @ last7 deviceId,
                currentGrade =
                  js_or (getOpt (getOpt (case analyzeDevice baseUrl f deviceId True True None of
                                           Inl e \<Rightarrow> JNull | Inr a \<Rightarrow> a) ''grading'') ''grade'')
                    (JStr ''Not Graded''),
                currentValue =
                  js_or (getOpt (getOpt (case analyzeDevice baseUrl f deviceId True True None of
                                           Inl e \<Rightarrow> JNull | Inr a \<Rightarrow> a) ''price_estimate'')
                           ''estimated_price'') (JNum 0),
                predictedValueDropDate = ''2026-06-20'',
                carbonOffset = 452 / 10,
                device_status = js_or (getOpt deviceData ''status'') (JStr ''unknown''),
                repairHistory = fixed_repairHistory\<rparr>"
  unfolding fetchDeviceData_def assms(1) Let_def
  using assms(2) by (simp add: deviceInfo_eq)

lemma fetchDeviceData_not_found:
  assumes "\<forall>deviceData. getDevice baseUrl f deviceId = Inr deviceData \<longrightarrow> \<not> truthy deviceData"
  shows "device (fetchDeviceData baseUrl f deviceId st) = None"
  using assms
  by (cases "getDevice baseUrl f deviceId") (auto simp: fetchDeviceData_def Let_def)

text \<open>
  Claim C9, as amended. The passport data the view builds for a device does not come from
  the minted passport record: the view never calls the passport endpoint, so what it builds is
  the same whatever that endpoint would answer. When the device request answers a truthy
  value, the data built is: the passport identifier \<^verbatim>\<open>SOL_DPP_\<close> followed by the last seven
  characters of the device id, the carbon offset 45.2, the value-drop date \<^verbatim>\<open>2026-06-20\<close> and
  the event log of three fixed repairs, all four local constants; the id, model, serial number
  and status of the device answer, and the grade and the price of the analysis answer (\<^verbatim>\<open>null\<close>
  when the analysis failed), each replaced by its fixed default when missing or falsy (the
  view's device id, \<^verbatim>\<open>'Unknown Model'\<close>, \<^verbatim>\<open>'N/A'\<close>, \<^verbatim>\<open>'unknown'\<close>, \<^verbatim>\<open>'Not Graded'\<close>, \<^verbatim>\<open>0\<close>). When
  the device request fails or answers a falsy value, no passport data is built.
\<close>

theorem fetchDeviceData_passport_is_local:
  assumes agree:
    "\<forall>url config. url \<noteq> baseUrl @ ''/passports/device/'' @ deviceId \<longrightarrow> f url config = f' url config"
  shows "fetchDeviceData baseUrl f deviceId st = fetchDeviceData baseUrl f' deviceId st
       \<and> (\<forall>info. device (fetchDeviceData baseUrl f deviceId st) = Some info \<longrightarrow>
            passportId info = ''SOL_DPP_'' @ last7 deviceId \<and> carbonOffset info = 452 / 10
            \<and> repairHistory info = fixed_repairHistory)
       \<and> (\<forall>deviceData. getDevice baseUrl f deviceId = Inr deviceData \<and> truthy deviceData \<longrightarrow>
            device (fetchDeviceData baseUrl f deviceId st) =
              Some \<lparr>device_id = js_or (getOpt deviceData ''id'') (JStr deviceId),
                model = js_or (getOpt deviceData ''model'') (JStr ''Unknown Model''),
                serialNumber = js_or (getOpt deviceData ''serialNumber'') (JStr ''N/A''),
                passportId = ''SOL_DPP_'' @ last7 deviceId,
                currentGrade =
                  js_or (getOpt (getOpt (case analyzeDevice baseUrl f deviceId True True None of
                                           Inl e \<Rightarrow> JNull | Inr a \<Rightarrow> a) ''grading'') ''grade'')
                    (JStr ''Not Graded''),
                currentValue =
                  js_or (getOpt (getOpt (case analyzeDevice baseUrl f deviceId True True None of
                                           Inl e \<Rightarrow> JNull | Inr a \<Rightarrow> a) ''price_estimate'')
                           ''estimated_price'') (JNum 0),
                predictedValueDropDate = ''2026-06-20'',
                carbonOffset = 452 / 10,
                device_status = js_or (getOpt deviceData ''status'') (JStr ''unknown''),
                repairHistory = fixed_repairHistory\<rparr>)
       \<and> ((\<forall>deviceData. getDevice baseUrl f deviceId = Inr deviceData \<longrightarrow> \<not> truthy deviceData) \<longrightarrow>
            device (fetchDeviceData baseUrl f deviceId st) = None)"
proof -
  have same: "fetchDeviceData baseUrl f deviceId st = fetchDeviceData baseUrl f' deviceId st"
    using agree by (rule fetchDeviceData_ignores_passport_endpoint)
  have local: "\<forall>info. device (fetchDeviceData baseUrl f deviceId st) = Some info \<longrightarrow>
            passportId info = ''SOL_DPP_'' @ last7 deviceId \<and> carbonOffset info = 452 / 10
            \<and> repairHistory info = fixed_repairHistory"
    using fetchDeviceData_device deviceInfo_passport by blast
  have found: "\<forall>deviceData. getDevice baseUrl f deviceId = Inr deviceData \<and> truthy deviceData \<longrightarrow>
            device (fetchDeviceData baseUrl f deviceId st) =
              Some \<lparr>device_id = js_or (getOpt deviceData ''id'') (JStr deviceId),
                model = js_or (getOpt deviceData ''model'') (JStr ''Unknown Model''),
                serialNumber = js_or (getOpt deviceData ''serialNumber'') (JStr ''N/A''),
                passportId = ''SOL_DPP_'' @ last7 deviceId,
                currentGrade =
                  js_or (getOpt (getOpt (case analyzeDevice baseUrl f deviceId True True None of
                                           Inl e \<Rightarrow> JNull | Inr a \<Rightarrow> a) ''grading'') ''grade'')
                    (JStr ''Not Graded''),
                currentValue =
                  js_or (getOpt (getOpt (case analyzeDevice baseUrl f deviceId True True None of
                                           Inl e \<Rightarrow> JNull | Inr a \<Rightarrow> a) ''price_estimate'')
                           ''estimated_price'') (JNum 0),
                predictedValueDropDate = ''2026-06-20'',
                carbonOffset = 452 / 10,
                device_status = js_or (getOpt deviceData ''status'') (JStr ''unknown''),
                repairHistory = fixed_repairHistory\<rparr>"
    using fetchDeviceData_found [of baseUrl f deviceId _ st] by blast
  have none: "(\<forall>deviceData. getDevice baseUrl f deviceId = Inr deviceData \<longrightarrow> \<not> truthy deviceData) \<longrightarrow>
            device (fetchDeviceData baseUrl f deviceId st) = None"
    using fetchDeviceData_not_found [of baseUrl f deviceId st] by blast
  from same local found none show ?thesis by blast
qed

text \<open>The theorem at two backends that differ in the passport they hold for the device.\<close>

theorem fetchDeviceData_passport_is_local_witness:
  "fetchDeviceData api_base (passport_backend minted_passport) component_deviceId loading_passport =
   fetchDeviceData api_base (passport_backend JNull) component_deviceId loading_passport
   \<and> map_option passportId
       (device (fetchDeviceData api_base (passport_backend minted_passport) component_deviceId
          loading_passport)) = Some (''SOL_DPP_'' @ last7 component_deviceId)"
proof -
  have agree: "\<forall>url config. url \<noteq> api_base @ ''/passports/device/'' @ component_deviceId \<longrightarrow>
      passport_backend minted_passport url config = passport_backend JNull url config"
    by (simp add: passport_backend_def component_deviceId_def)
  show ?thesis
    using fetchDeviceData_passport_is_local [OF agree, of loading_passport]
    by (simp add: shown_passport)
qed

text \<open>Claim C9 as stated fails: the backend holds a minted passport for the device, with its
  ledger reference and a carbon figure of 55, and the view shows the identifier made from the
  device id and the carbon offset 45.2.\<close>

theorem passport_not_from_record_counterexample:
  "getPassportByDevice api_base (passport_backend minted_passport) component_deviceId =
     Inr minted_passport
   \<and> getOpt minted_passport ''mint_address'' = JStr ''7xKXtg2CW87d97TXJSDpbD5jBkheTqA83TZRuJosgAsU''
   \<and> getOpt minted_passport ''carbon_footprint_saved'' = JNum 55
   \<and> map_option passportId
       (device (fetchDeviceData api_base (passport_backend minted_passport) component_deviceId
          loading_passport)) = Some ''SOL_DPP_6-ALPHA''
   \<and> map_option carbonOffset
       (device (fetchDeviceData api_base (passport_backend minted_passport) component_deviceId
          loading_passport)) = Some (452 / 10)"
proof -
  have "getPassportByDevice api_base (passport_backend minted_passport) component_deviceId =
     Inr minted_passport"
    by (simp add: getPassportByDevice_def request_def passport_backend_def component_deviceId_def
        api_base_def)
  then show ?thesis
    by (simp add: shown_passport minted_passport_def)
qed

section \<open>What the dashboard takes for the latest snapshot\<close>

text \<open>The dashboard charts the history in the order it came in and reads its metrics from
  element 0. The order itself is fixed by the backend's telemetry route, which is not among
  the sources.\<close>

lemma chart_item_ok:
  "item \<noteq> JNull \<Longrightarrow> item \<noteq> JUndefined \<Longrightarrow>
   chart_item i item =
     Inr \<lparr>timestamp = getOpt item ''timestamp'',
          batteryHealth = js_or (getOpt item ''battery_health_percentage'') (JNum 0),
          thermalEfficiency = js_or (getOpt item ''battery_temperature'') (JNum 0),
          marketValue = 1200 - int i * 50\<rparr>"
  by (simp add: chart_item_def getProp_getOpt)

lemma chart_map_ok:
  "JNull \<notin> set items \<Longrightarrow> JUndefined \<notin> set items \<Longrightarrow>
   \<exists>cs. chart_map i items = Inr cs
      \<and> map batteryHealth cs =
          map (\<lambda>x. js_or (getOpt x ''battery_health_percentage'') (JNum 0)) items"
proof (induction items arbitrary: i)
  case Nil
  show ?case by simp
next
  case (Cons x xs)
  have x: "x \<noteq> JNull" "x \<noteq> JUndefined"
    using Cons.prems by auto
  obtain cs where cs: "chart_map (Suc i) xs = Inr cs"
      "map batteryHealth cs =
          map (\<lambda>x. js_or (getOpt x ''battery_health_percentage'') (JNum 0)) xs"
    using Cons.IH [of "Suc i"] Cons.prems by auto
  show ?case
    using cs by (simp add: chart_item_ok [OF x])
qed

lemma fetchTelemetryData_charted:
  assumes h: "getTelemetryHistory baseUrl fetch deviceId 30 = Inr (JArr (latest # rest))"
      and nn: "JNull \<notin> set (latest # rest)" and nu: "JUndefined \<notin> set (latest # rest)"
  shows "metrics (fetchTelemetryData baseUrl fetch deviceId st) =
           \<lparr>metrics_batteryHealth = js_or (getOpt latest ''battery_health_percentage'') (JNum 0),
            metrics_thermalEfficiency =
              ThermalOf (js_or (getOpt latest ''battery_temperature'') (JNum 0)),
            metrics_marketValue = 1200 - int (length (latest # rest)) * 50,
            circularYield = 124 / 10\<rparr>
       \<and> map batteryHealth (telemetryData (fetchTelemetryData baseUrl fetch deviceId st)) =
           map (\<lambda>x. js_or (getOpt x ''battery_health_percentage'') (JNum 0)) (latest # rest)"
proof -
  obtain cs where cs: "chart_map 0 (latest # rest) = Inr cs"
      "map batteryHealth cs =
          map (\<lambda>x. js_or (getOpt x ''battery_health_percentage'') (JNum 0)) (latest # rest)"
    using chart_map_ok [OF nn nu, of 0] by blast
  have l: "latest \<noteq> JUndefined" "latest \<noteq> JNull"
    using nn nu by auto
  show ?thesis
    unfolding fetchTelemetryData_def h Let_def
    using cs by (simp add: getProp_getOpt [OF l] del: chart_map.simps)
qed

section \<open>The circularity score and the transition table\<close>

lemma score_fold:
  "foldl score_step (p, r) events =
     (p + 5 * int (count_kind Repair events) + 10 * int (count_kind Refurbish events)
        + 8 * int (count_kind HarvestParts events)
        + (if \<not> r \<and> count_kind Recycle events > 0 then 15 else 0),
      r \<or> count_kind Recycle events > 0)"
proof (induction events arbitrary: p r)
  case Nil
  show ?case by (simp add: count_kind_def)
next
  case (Cons e es)
  show ?case
    by (cases "kind e") (simp_all add: Cons.IH count_kind_def)
qed

lemma circularityScore_closed:
  "circularityScore events age =
     max 0 (min 100 (70 + 5 * int (count_kind Repair events)
        + 10 * int (count_kind Refurbish events)
        + 8 * int (count_kind HarvestParts events)
        + (if count_kind Recycle events > 0 then 15 else 0) + int age))"
  by (simp add: circularityScore_def score_fold clamp_score_def algebra_simps)

lemma count_kind_map: "count_kind k events = length (filter (\<lambda>x. x = k) (map kind events))"
  by (simp add: count_kind_def filter_map comp_def)

lemma scenario_score:
  assumes "map kind events = [Repair, Refurbish, Recycle]"
  shows "circularityScore events 2 = 100"
  by (simp add: circularityScore_closed count_kind_map assms)

text \<open>The carbon offset of the same scenario: -5 - 30 - 20 = -55 kg relative to the baseline.\<close>

lemma scenario_carbon:
  assumes "map kind events = [Repair, Refurbish, Recycle]"
  shows "carbonOffsetOf events base = - 55 - base"
proof -
  obtain a b c where e: "events = [a, b, c]"
    using assms by (auto simp: map_eq_Cons_conv)
  show ?thesis
    using assms unfolding e by (simp add: carbonOffsetOf_def)
qed

lemma appendEvent_profile:
  assumes "appendEvent d k md now age = (Inr p, d')"
  shows "profile d' = p \<and> score p = circularityScore (ledger d') age
       \<and> ledger d' = ledger d @ [\<lparr>event_device = identity d, kind = k, event_time = now,
                                   metadata = md\<rparr>]"
  using assms by (auto simp: appendEvent_def Let_def recompute_def split: option.splits)

text \<open>
  Claim C1. After an event is appended, the device's circularity score is 70, plus 5 per repair
  event of the ledger, plus 10 per refurbishment, plus 8 per parts-harvest, plus 15 once if the
  ledger has a recycle event, plus the age in full years, clamped to [0, 100]; it lies in
  [0, 100]; and for the ledger [repair, refurbish, recycle] at age 2 it is exactly 100.
\<close>

theorem circularity_score_after_append:
  assumes "appendEvent d k md now age = (Inr p, d')"
  shows "score (profile d') =
           max 0 (min 100 (70 + 5 * int (count_kind Repair (ledger d'))
             + 10 * int (count_kind Refurbish (ledger d'))
             + 8 * int (count_kind HarvestParts (ledger d'))
             + (if count_kind Recycle (ledger d') > 0 then 15 else 0) + int age))
       \<and> 0 \<le> score (profile d') \<and> score (profile d') \<le> 100
       \<and> (map kind (ledger d') = [Repair, Refurbish, Recycle] \<and> age = 2 \<longrightarrow>
            score (profile d') = 100)"
proof -
  have s: "score (profile d') = circularityScore (ledger d') age"
    using appendEvent_profile [OF assms] by simp
  have closed: "score (profile d') =
           max 0 (min 100 (70 + 5 * int (count_kind Repair (ledger d'))
             + 10 * int (count_kind Refurbish (ledger d'))
             + 8 * int (count_kind HarvestParts (ledger d'))
             + (if count_kind Recycle (ledger d') > 0 then 15 else 0) + int age))"
    unfolding s by (rule circularityScore_closed)
  have lo: "0 \<le> score (profile d')"
    unfolding s by (simp add: circularityScore_def clamp_score_def)
  have hi: "score (profile d') \<le> 100"
    unfolding s by (simp add: circularityScore_def clamp_score_def)
  have scen: "map kind (ledger d') = [Repair, Refurbish, Recycle] \<and> age = 2 \<longrightarrow>
            score (profile d') = 100"
    unfolding s using scenario_score [of "ledger d'"] by auto
  from closed lo hi scen show ?thesis by blast
qed

text \<open>The theorem at the spec's scenario: D1, two years old, repaired and refurbished, is
  recycled; 70 + 5 + 10 + 15 + 2 = 102 is clamped to 100.\<close>

theorem circularity_score_after_append_witness:
  "map kind (ledger (snd (appendEvent refurbished_D1 Recycle [] 30 2))) =
     [Repair, Refurbish, Recycle]
   \<and> score (profile (snd (appendEvent refurbished_D1 Recycle [] 30 2))) = 100"
proof -
  obtain p d' where a: "appendEvent refurbished_D1 Recycle [] 30 2 = (Inr p, d')"
    by (simp add: appendEvent_def refurbished_D1_def Let_def)
  have l: "map kind (ledger d') = [Repair, Refurbish, Recycle]"
    using a by (auto simp: appendEvent_def refurbished_D1_def Let_def)
  show ?thesis
    using circularity_score_after_append [OF a] l a by simp
qed

text \<open>
  Claim C4. For a device whose status is retired, \<open>appendEvent\<close> with kind recycle fails with
  \<open>InvalidTransition\<close>, and after the failure the ledger has the same length and the status
  is the same. More generally, whenever \<open>appendEvent\<close> fails, the error is
  \<open>InvalidTransition\<close> and the state after the call is the state before it: the ledger is
  never appended on an illegal transition.
\<close>

theorem recycle_from_retired_is_invalid:
  "(lifecycle_status d = Retired \<longrightarrow>
      fst (appendEvent d Recycle md now age) = Inl InvalidTransition
    \<and> length (ledger (snd (appendEvent d Recycle md now age))) = length (ledger d)
    \<and> lifecycle_status (snd (appendEvent d Recycle md now age)) = lifecycle_status d)
   \<and> (\<forall>k e. fst (appendEvent d k md now age) = Inl e \<longrightarrow>
         e = InvalidTransition \<and> snd (appendEvent d k md now age) = d)"
proof -
  have retired: "appendEvent d Recycle md now age = (Inl InvalidTransition, d)"
    if "lifecycle_status d = Retired"
  proof -
    have "transition (lifecycle_status d) Recycle = None"
      using that by simp
    then show ?thesis
      by (simp add: appendEvent_def)
  qed
  have failure: "e = InvalidTransition \<and> snd (appendEvent d k md now age) = d"
    if "fst (appendEvent d k md now age) = Inl e" for k e
    using that by (cases "transition (lifecycle_status d) k") (auto simp: appendEvent_def Let_def)
  from retired failure show ?thesis by simp
qed

text \<open>The theorem at the retired device D2.\<close>

theorem recycle_from_retired_is_invalid_witness:
  "lifecycle_status retired_D2 = Retired
   \<and> appendEvent retired_D2 Recycle ''again'' 40 3 = (Inl InvalidTransition, retired_D2)"
proof -
  have r: "lifecycle_status retired_D2 = Retired"
    by (simp add: retired_D2_def)
  show ?thesis
    using r recycle_from_retired_is_invalid [of retired_D2 "''again''" 40 3]
    by (simp add: prod_eq_iff)
qed

section \<open>The telemetry window and the fused analysis\<close>

lemma window_short:
  "length (filter (in_window deviceId days now) store) < minimumCount cfg \<Longrightarrow>
     window cfg store now deviceId days = Inl InsufficientHistory"
  by (simp add: window_def)

text \<open>A window that is returned is never shorter than the configured minimum.\<close>

lemma window_full:
  "window cfg store now deviceId days = Inr w \<Longrightarrow>
     minimumCount cfg \<le> length w \<and> w = filter (in_window deviceId days now) store"
  by (auto simp: window_def Let_def split: if_splits)

lemma settle_health_short:
  "length (filter (in_window deviceId (windowDays cfg) now) store) < minimumCount cfg \<Longrightarrow>
   includeHealth opts \<Longrightarrow> settle_health cfg store now gw deviceId opts = NoInput"
  by (simp add: settle_health_def window_short)

lemma call_gateway_cases:
  "is_requested (call_gateway r)"
  "is_unavailable (call_gateway r) \<longleftrightarrow> r = None"
  "component (call_gateway r) = r"
  by (cases r; simp add: call_gateway_def)+

lemma settle_health_unavailable:
  "is_unavailable (settle_health cfg store now gw deviceId opts) \<longleftrightarrow>
     includeHealth opts \<and>
     (\<exists>w. window cfg store now deviceId (windowDays cfg) = Inr w \<and> predictHealth gw w = None)"
  by (auto simp: settle_health_def call_gateway_cases split: sum.splits telemetry_error.splits)

lemma settle_health_requested:
  "is_requested (settle_health cfg store now gw deviceId opts) \<longleftrightarrow> includeHealth opts"
  by (auto simp: settle_health_def call_gateway_cases split: sum.splits telemetry_error.splits)

lemma settle_health_component:
  "component (settle_health cfg store now gw deviceId opts) =
     (if includeHealth opts then
        (case window cfg store now deviceId (windowDays cfg) of
           Inl e \<Rightarrow> None | Inr w \<Rightarrow> predictHealth gw w)
      else None)"
  by (auto simp: settle_health_def call_gateway_cases split: sum.splits telemetry_error.splits)

lemma settle_grading_facts:
  "is_requested (settle_grading gw opts) \<longleftrightarrow> includeGrading opts"
  "is_unavailable (settle_grading gw opts) \<longleftrightarrow> includeGrading opts \<and> gradeImages gw (images opts) = None"
  "component (settle_grading gw opts) = (if includeGrading opts then gradeImages gw (images opts) else None)"
  by (simp_all add: settle_grading_def call_gateway_cases)

lemma settle_pricing_facts:
  "is_requested (settle_pricing gw deviceId opts) \<longleftrightarrow> includePricing opts"
  "is_unavailable (settle_pricing gw deviceId opts) \<longleftrightarrow> includePricing opts \<and> estimatePrice gw deviceId = None"
  "component (settle_pricing gw deviceId opts) = (if includePricing opts then estimatePrice gw deviceId else None)"
  by (simp_all add: settle_pricing_def call_gateway_cases)

lemma unavailable_requested: "is_unavailable s \<Longrightarrow> is_requested s"
  by (cases s) simp_all

lemma count3:
  assumes "a \<longrightarrow> a'" "b \<longrightarrow> b'" "c \<longrightarrow> c'"
  shows "length (filter id [a, b, c]) = length (filter id [a', b', c']) \<longleftrightarrow>
         (a' \<longrightarrow> a) \<and> (b' \<longrightarrow> b) \<and> (c' \<longrightarrow> c)"
  using assms by (cases a; cases b; cases c; cases a'; cases b'; cases c'; simp)

lemma analyze_fails_iff:
  "analyze cfg store now gw deviceId opts = Inl AllCapabilitiesUnavailable \<longleftrightarrow>
     (let h = settle_health cfg store now gw deviceId opts;
          g = settle_grading gw opts;
          p = settle_pricing gw deviceId opts
      in (is_requested h \<or> is_requested g \<or> is_requested p)
       \<and> (is_requested h \<longrightarrow> is_unavailable h)
       \<and> (is_requested g \<longrightarrow> is_unavailable g)
       \<and> (is_requested p \<longrightarrow> is_unavailable p))"
proof -
  let ?h = "settle_health cfg store now gw deviceId opts"
  let ?g = "settle_grading gw opts"
  let ?p = "settle_pricing gw deviceId opts"
  have c: "length (filter id [is_unavailable ?h, is_unavailable ?g, is_unavailable ?p]) =
           length (filter id [is_requested ?h, is_requested ?g, is_requested ?p]) \<longleftrightarrow>
           (is_requested ?h \<longrightarrow> is_unavailable ?h) \<and> (is_requested ?g \<longrightarrow> is_unavailable ?g)
           \<and> (is_requested ?p \<longrightarrow> is_unavailable ?p)"
    by (rule count3) (simp_all add: unavailable_requested)
  have r: "0 < length (filter id [is_requested ?h, is_requested ?g, is_requested ?p]) \<longleftrightarrow>
           is_requested ?h \<or> is_requested ?g \<or> is_requested ?p"
    by simp
  have "analyze cfg store now gw deviceId opts = Inl AllCapabilitiesUnavailable \<longleftrightarrow>
        0 < length (filter id [is_requested ?h, is_requested ?g, is_requested ?p])
        \<and> length (filter id [is_unavailable ?h, is_unavailable ?g, is_unavailable ?p]) =
           length (filter id [is_requested ?h, is_requested ?g, is_requested ?p])"
    unfolding analyze_def Let_def by (simp del: filter.simps list.size)
  then show ?thesis
    unfolding Let_def c r by blast
qed

lemma analyze_result:
  "analyze cfg store now gw deviceId opts = Inr fa \<Longrightarrow>
     health fa = component (settle_health cfg store now gw deviceId opts)
   \<and> grading fa = component (settle_grading gw opts)
   \<and> price fa = component (settle_pricing gw deviceId opts)"
  unfolding analyze_def Let_def by (auto split: if_splits)

lemma analyze_total:
  "analyze cfg store now gw deviceId opts = Inl AllCapabilitiesUnavailable
   \<or> (\<exists>fa. analyze cfg store now gw deviceId opts = Inr fa)"
  unfolding analyze_def Let_def by simp

text \<open>
  Claim C2. \<open>analyze\<close> fails with \<open>AllCapabilitiesUnavailable\<close> exactly when capabilities were
  requested and every requested one is unavailable (health: the window was there and the
  predictor came back \<open>Unavailable\<close>). When it returns a fused analysis, each component is what
  its capability returned, absent where the capability was unavailable or not requested; and
  it does return one as soon as one requested capability succeeded.
\<close>

theorem analyze_fails_when_all_unavailable:
  "(analyze cfg store now gw deviceId opts = Inl AllCapabilitiesUnavailable \<longleftrightarrow>
      (includeHealth opts \<or> includeGrading opts \<or> includePricing opts)
      \<and> (includeHealth opts \<longrightarrow>
           (\<exists>w. window cfg store now deviceId (windowDays cfg) = Inr w \<and> predictHealth gw w = None))
      \<and> (includeGrading opts \<longrightarrow> gradeImages gw (images opts) = None)
      \<and> (includePricing opts \<longrightarrow> estimatePrice gw deviceId = None))
   \<and> (\<forall>fa. analyze cfg store now gw deviceId opts = Inr fa \<longrightarrow>
         health fa =
           (if includeHealth opts then
              (case window cfg store now deviceId (windowDays cfg) of
                 Inl e \<Rightarrow> None | Inr w \<Rightarrow> predictHealth gw w)
            else None)
       \<and> grading fa = (if includeGrading opts then gradeImages gw (images opts) else None)
       \<and> price fa = (if includePricing opts then estimatePrice gw deviceId else None))
   \<and> ((includeHealth opts \<and>
         (\<exists>w x. window cfg store now deviceId (windowDays cfg) = Inr w \<and> predictHealth gw w = Some x))
       \<or> (includeGrading opts \<and> (\<exists>x. gradeImages gw (images opts) = Some x))
       \<or> (includePricing opts \<and> (\<exists>x. estimatePrice gw deviceId = Some x))
       \<longrightarrow> (\<exists>fa. analyze cfg store now gw deviceId opts = Inr fa))"
proof -
  let ?a = "analyze cfg store now gw deviceId opts"
  let ?hU = "\<exists>w. window cfg store now deviceId (windowDays cfg) = Inr w \<and> predictHealth gw w = None"
  have fails: "?a = Inl AllCapabilitiesUnavailable \<longleftrightarrow>
      (includeHealth opts \<or> includeGrading opts \<or> includePricing opts)
      \<and> (includeHealth opts \<longrightarrow> ?hU)
      \<and> (includeGrading opts \<longrightarrow> gradeImages gw (images opts) = None)
      \<and> (includePricing opts \<longrightarrow> estimatePrice gw deviceId = None)"
    unfolding analyze_fails_iff Let_def settle_health_requested settle_health_unavailable
      settle_grading_facts settle_pricing_facts
    by blast
  have fused: "\<forall>fa. ?a = Inr fa \<longrightarrow>
         health fa =
           (if includeHealth opts then
              (case window cfg store now deviceId (windowDays cfg) of
                 Inl e \<Rightarrow> None | Inr w \<Rightarrow> predictHealth gw w)
            else None)
       \<and> grading fa = (if includeGrading opts then gradeImages gw (images opts) else None)
       \<and> price fa = (if includePricing opts then estimatePrice gw deviceId else None)"
    using analyze_result [of cfg store now gw deviceId opts]
    by (simp add: settle_health_component settle_grading_facts settle_pricing_facts)
  have degraded: "(includeHealth opts \<and>
         (\<exists>w x. window cfg store now deviceId (windowDays cfg) = Inr w \<and> predictHealth gw w = Some x))
       \<or> (includeGrading opts \<and> (\<exists>x. gradeImages gw (images opts) = Some x))
       \<or> (includePricing opts \<and> (\<exists>x. estimatePrice gw deviceId = Some x))
       \<longrightarrow> (\<exists>fa. ?a = Inr fa)"
  proof
    assume some: "(includeHealth opts \<and>
         (\<exists>w x. window cfg store now deviceId (windowDays cfg) = Inr w \<and> predictHealth gw w = Some x))
       \<or> (includeGrading opts \<and> (\<exists>x. gradeImages gw (images opts) = Some x))
       \<or> (includePricing opts \<and> (\<exists>x. estimatePrice gw deviceId = Some x))"
    have "?a \<noteq> Inl AllCapabilitiesUnavailable"
      unfolding fails using some by auto
    then show "\<exists>fa. ?a = Inr fa"
      using analyze_total [of cfg store now gw deviceId opts] by blast
  qed
  from fails fused degraded show ?thesis by blast
qed

lemma full_month_window: "window thirty_days full_month 100 ''D1'' 30 = Inr full_month"
proof -
  have "filter (in_window ''D1'' 30 100) full_month = full_month"
    unfolding full_month_def
    by (rule filter_True) (auto simp: in_window_def daily_def)
  then show ?thesis
    by (simp add: window_def thirty_days_def full_month_def)
qed

text \<open>The theorem at a gateway with all capabilities down (the call fails), and at the degraded
  run of the spec: all three requested on a full month of history, grading down, health and
  pricing up (the call returns; health and price are populated, grading is absent).\<close>

theorem analyze_fails_when_all_unavailable_witness:
  "analyze thirty_days full_month 100 gateway_down ''D1'' everything =
     Inl AllCapabilitiesUnavailable
   \<and> analyze thirty_days full_month 100 grading_down ''D1'' everything =
       Inr \<lparr>health = Some 400, grading = None, price = Some 640\<rparr>"
proof -
  have w: "window thirty_days full_month 100 ''D1'' (windowDays thirty_days) = Inr full_month"
    using full_month_window by (simp add: thirty_days_def)
  have down: "analyze thirty_days full_month 100 gateway_down ''D1'' everything =
     Inl AllCapabilitiesUnavailable"
    using analyze_fails_when_all_unavailable
      [of thirty_days full_month 100 gateway_down "''D1''" everything]
    by (simp add: w gateway_down_def everything_def)
  obtain fa where fa: "analyze thirty_days full_month 100 grading_down ''D1'' everything = Inr fa"
    using analyze_fails_when_all_unavailable
      [of thirty_days full_month 100 grading_down "''D1''" everything]
    by (auto simp: w grading_down_def everything_def)
  have "health fa = Some 400 \<and> grading fa = None \<and> price fa = Some 640"
    using fa analyze_fails_when_all_unavailable
      [of thirty_days full_month 100 grading_down "''D1''" everything]
    by (simp add: w grading_down_def everything_def)
  then have "fa = \<lparr>health = Some 400, grading = None, price = Some 640\<rparr>"
    by (cases fa) simp
  with down fa show ?thesis by simp
qed

text \<open>
  Claim C5. When the device's snapshots within the trailing window are fewer than the
  configured minimum, \<open>window\<close> returns \<open>InsufficientHistory\<close>, not a shorter sequence; and an
  \<open>analyze\<close> call that requested health for that window still returns a fused analysis, with
  health absent.
\<close>

theorem insufficient_history_is_explicit:
  assumes short: "length (filter (in_window deviceId days now) store) < minimumCount cfg"
  shows "window cfg store now deviceId days = Inl InsufficientHistory
       \<and> (days = windowDays cfg \<and> includeHealth opts \<longrightarrow>
            (\<exists>fa. analyze cfg store now gw deviceId opts = Inr fa \<and> health fa = None))"
proof -
  have w: "window cfg store now deviceId days = Inl InsufficientHistory"
    using short by (rule window_short)
  have a: "\<exists>fa. analyze cfg store now gw deviceId opts = Inr fa \<and> health fa = None"
    if d: "days = windowDays cfg" and h: "includeHealth opts"
  proof -
    have s: "settle_health cfg store now gw deviceId opts = NoInput"
      using short h unfolding d by (rule settle_health_short)
    have "analyze cfg store now gw deviceId opts \<noteq> Inl AllCapabilitiesUnavailable"
      unfolding analyze_fails_iff Let_def s by simp
    then obtain fa where fa: "analyze cfg store now gw deviceId opts = Inr fa"
      using analyze_total [of cfg store now gw deviceId opts] by blast
    have "health fa = None"
      using analyze_result [OF fa] by (simp add: s)
    with fa show ?thesis by blast
  qed
  from w a show ?thesis by blast
qed

text \<open>The theorem at the spec's scenario: ten days of history against a 30-day requirement.\<close>

theorem insufficient_history_is_explicit_witness:
  "window thirty_days ten_days 100 ''D1'' 30 = Inl InsufficientHistory
   \<and> (\<exists>fa. analyze thirty_days ten_days 100 grading_down ''D1'' health_only = Inr fa
          \<and> health fa = None)"
proof -
  have n: "length (filter (in_window ''D1'' 30 100) ten_days) = 10"
    by (simp add: ten_days_def daily_def in_window_def)
  have short: "length (filter (in_window ''D1'' 30 100) ten_days) < minimumCount thirty_days"
    unfolding n by (simp add: thirty_days_def)
  show ?thesis
    using insufficient_history_is_explicit [OF short, of health_only grading_down]
    by (simp add: thirty_days_def health_only_def)
qed

end
